theory Spec2Isabelle
  imports Complex_Main
begin

section \<open>Tensors\<close>

text \<open>
  A tensor is modelled by its element type tag, its shape and its elements in row-major
  order. The element values themselves are kept polymorphic: the code under study only
  moves them around (allocation, gather, concatenation, slicing) and hands them to the
  sampling primitive.
\<close>

datatype dtype = Float16 | BFloat16 | Float32 | Float64 | Int32 | Int64 | Bool

datatype error =
    IndexError
  | KeyError
  | CatError
  | GatherListMissing
  | GatherListOnNonDst
  | InvalidRank
  | ListSize
  | BufferMismatch
  | MessageTooLong
  | SampleError
  | BroadcastError
  | MaskError

record 'a tensor =
  dtype :: dtype
  shape :: "nat list"
  elems :: "'a list"

definition numel :: "'a tensor \<Rightarrow> nat" where
  "numel t = prod_list (shape t)"

definition wf_tensor :: "'a tensor \<Rightarrow> bool" where
  "wf_tensor t = (length (elems t) = numel t)"

text \<open>
  The last dimension is the vocabulary dimension. A tensor of shape \<open>lead @ [v]\<close> consists
  of \<open>prod_list lead\<close> rows of \<open>v\<close> elements each.
\<close>

definition lead_dims :: "'a tensor \<Rightarrow> nat list" where
  "lead_dims t = butlast (shape t)"

definition width :: "'a tensor \<Rightarrow> nat" where
  "width t = last (shape t)"

definition nrows :: "'a tensor \<Rightarrow> nat" where
  "nrows t = prod_list (lead_dims t)"

definition row :: "'a tensor \<Rightarrow> nat \<Rightarrow> 'a list" where
  "row t r = take (width t) (drop (r * width t) (elems t))"

text \<open>
  \<^verbatim>\<open>torch.empty_like(t)\<close>: a fresh tensor with the shape and dtype of \<open>t\<close> whose content is
  whatever the allocator returns. The content is the parameter \<open>m\<close>, about which nothing
  is assumed.
\<close>

definition empty_like :: "(nat \<Rightarrow> 'a) \<Rightarrow> 'a tensor \<Rightarrow> 'a tensor" where
  "empty_like m t = \<lparr>dtype = dtype t, shape = shape t, elems = map m [0..<numel t]\<rparr>"

text \<open>
  \<^verbatim>\<open>t[..., 0]\<close>: index 0 of the last dimension. It raises IndexError on a tensor without
  dimensions and on a last dimension of size 0.
\<close>

definition select_last0 :: "'a tensor \<Rightarrow> error + 'a tensor" where
  "select_last0 t =
     (if shape t = [] then Inl IndexError
      else if width t = 0 then Inl IndexError
      else Inr \<lparr>dtype = dtype t, shape = lead_dims t,
                elems = concat (map (\<lambda>r. take 1 (row t r)) [0..<nrows t])\<rparr>)"

text \<open>
  \<^verbatim>\<open>torch.cat(ts, dim=-1)\<close>, for the calls made here: every tensor of the list has the
  dtype and the leading dimensions of the first one. An empty list and tensors without
  dimensions are rejected, as are lists that do not agree on dtype or leading dimensions
  (type promotion and the legacy treatment of empty one-dimensional tensors in a mixed
  list are not reproduced: the lists built below are uniform).
\<close>

definition cat_compatible :: "'a tensor \<Rightarrow> 'a tensor \<Rightarrow> bool" where
  "cat_compatible t u = (shape u \<noteq> [] \<and> lead_dims u = lead_dims t \<and> dtype u = dtype t)"

definition cat_last :: "'a tensor list \<Rightarrow> error + 'a tensor" where
  "cat_last ts =
     (case ts of
        [] \<Rightarrow> Inl CatError
      | t # rest \<Rightarrow>
          if shape t = [] then Inl CatError
          else if \<not> list_all (cat_compatible t) rest then Inl CatError
          else Inr \<lparr>dtype = dtype t,
                    shape = lead_dims t @ [sum_list (map width ts)],
                    elems = concat (map (\<lambda>r. concat (map (\<lambda>u. row u r) ts)) [0..<nrows t])\<rparr>)"

section \<open>The tensor-parallel group and its gather collective\<close>

text \<open>
  The values the ambient lookups return on one participant:
  \<^verbatim>\<open>get_tensor_model_parallel_world_size()\<close>, \<^verbatim>\<open>get_tensor_model_parallel_rank()\<close> (the
  ordinal of the participant in its group), \<^verbatim>\<open>get_tensor_model_parallel_src_rank()\<close> (a
  global rank), \<^verbatim>\<open>get_tensor_model_parallel_group()\<close> (the global ranks of the members, by
  ordinal) and the participant's own global rank. These functions are not part of the
  file under study, so their results are parameters. Ranks and sizes are natural numbers:
  the framework never returns a negative one.
\<close>

record env =
  tp_world_size :: nat
  tp_rank :: nat
  tp_src_rank :: nat
  tp_group :: "nat list"
  global_rank :: nat

text \<open>
  The collective \<^verbatim>\<open>torch.distributed.gather(tensor, gather_list, dst, group)\<close> is a
  function of the communication library, outside the repository. It is modelled as the
  library behaves, seen from the participant with global rank \<open>me\<close>, a member of the
  group; \<open>sent\<close> lists the tensors the members of the group pass to the same call, by
  ordinal.
  \<^item> The destination is looked up in the group first: a destination outside the
    group is an error, whatever else is passed.
  \<^item> The destination must supply receive buffers and every other member must supply
    none.
  \<^item> On the destination the library wants one buffer per member and compares the
    buffers with the destination's own tensor only (same shape, same dtype). It never
    compares the tensors of different members.
  \<^item> The transport then moves the bytes of every member's tensor to the start of the
    buffer of its ordinal, whatever the two shapes are. A tensor with fewer bytes than its
    buffer fills the first elements and leaves the rest of the buffer as it was; a tensor
    with more bytes than its buffer is refused. The bytes of a tensor of another dtype do
    not read as its values: the buffer then keeps its unspecified content.
  The result is the list of receive buffers after the call; \<^verbatim>\<open>.contiguous()\<close> tensors
  are laid out in row-major order, the order of \<open>elems\<close>.
\<close>

definition fits :: "'a tensor \<Rightarrow> 'a tensor \<Rightarrow> bool" where
  "fits b s = (shape b = shape s \<and> dtype b = dtype s)"

fun itemsize :: "dtype \<Rightarrow> nat" where
  "itemsize Float16 = 2"
| "itemsize BFloat16 = 2"
| "itemsize Float32 = 4"
| "itemsize Float64 = 8"
| "itemsize Int32 = 4"
| "itemsize Int64 = 8"
| "itemsize Bool = 1"

definition nbytes :: "'a tensor \<Rightarrow> nat" where
  "nbytes t = numel t * itemsize (dtype t)"

definition receive :: "'a tensor \<Rightarrow> 'a tensor \<Rightarrow> 'a tensor" where
  "receive b s =
     (if dtype s = dtype b then b\<lparr>elems := elems s @ drop (length (elems s)) (elems b)\<rparr>
      else b)"

definition gather ::
  "nat \<Rightarrow> 'a tensor list \<Rightarrow> 'a tensor \<Rightarrow> 'a tensor list \<Rightarrow> nat \<Rightarrow> nat list \<Rightarrow>
   error + 'a tensor list" where
  "gather me sent tensor gather_list dst grp =
     (if dst \<notin> set grp then Inl InvalidRank
      else if me = dst then
        (if gather_list = [] then Inl GatherListMissing
         else if length gather_list \<noteq> length grp \<or> length sent \<noteq> length grp then Inl ListSize
         else if \<not> list_all (fits tensor) gather_list then Inl BufferMismatch
         else if \<not> list_all2 (\<lambda>b s. nbytes s \<le> nbytes b) gather_list sent then Inl MessageTooLong
         else Inr (map2 receive gather_list sent))
      else
        (if gather_list \<noteq> [] then Inl GatherListOnNonDst
         else Inr []))"

section \<open>tensor\_parallel\_sample\<close>

text \<open>
  What a participant does that can be observed from outside: the collective calls it
  enters (with the tensor sent, the receive buffers supplied, the destination and the
  group) and the calls of the sampling primitive (with the logits and the sampling
  parameters). The state of a participant is the sequence of these events and the state
  of its random number generator.
\<close>

datatype 'a event =
    GatherCall "'a tensor" "'a tensor list" nat "nat list"
  | SampleCall "'a tensor" real int real

record ('a, 'g) pstate =
  events :: "'a event list"
  gen :: 'g

type_synonym ('a, 'g) sampler =
  "'g \<Rightarrow> 'a tensor \<Rightarrow> real \<Rightarrow> int \<Rightarrow> real \<Rightarrow> error + ('a tensor \<times> 'g)"

definition emit :: "'a event \<Rightarrow> ('a, 'g) pstate \<Rightarrow> ('a, 'g) pstate" where
  "emit e st = st\<lparr>events := events st @ [e]\<rparr>"

text \<open>
  \<^verbatim>\<open>
  def tensor_parallel_sample(logits, top_p=0.0, top_k=0, temperature=1.0):
      world_size = get_tensor_model_parallel_world_size()
      rank = get_tensor_model_parallel_rank()
      dst_rank = get_tensor_model_parallel_src_rank()
      if rank == 0:
          tensor_list = [torch.empty_like(logits) for _ in range(world_size)]
      else:
          tensor_list = []
      torch.distributed.gather(logits, tensor_list, dst=dst_rank, group=get_tensor_model_parallel_group())
      if rank == 0:
          logits = torch.cat(tensor_list, dim=-1).contiguous()
          new_token = sample(logits, top_p=top_p, top_k=top_k, temperature=temperature)
      else:
          new_token = torch.empty_like(logits[..., 0])
      return new_token
  \<close>
  The sampling primitive \<open>sample\<close> (of \<^verbatim>\<open>megatron.text_generation.sampling\<close>) is not part
  of the file; it is a parameter: a function of the generator state, the logits and the
  three sampling parameters that fails or returns the tokens and the next generator
  state. \<open>mem k\<close> is the content of the \<open>k\<close>-th allocation of the call. \<open>net\<close> lists
  the shards the members of the group pass to the collective, by ordinal; the
  participant's own entry is its argument \<open>logits\<close>. \<open>top_p\<close> and \<open>temperature\<close> are
  Python floats that the function only passes on; they are real numbers here.
  \<^verbatim>\<open>.contiguous()\<close> changes the memory layout only, not the tensor.
\<close>

definition tensor_parallel_sample ::
  "('a, 'g) sampler \<Rightarrow> (nat \<Rightarrow> nat \<Rightarrow> 'a) \<Rightarrow> env \<Rightarrow> 'a tensor list \<Rightarrow> ('a, 'g) pstate \<Rightarrow>
   'a tensor \<Rightarrow> real \<Rightarrow> int \<Rightarrow> real \<Rightarrow> (error + 'a tensor) \<times> ('a, 'g) pstate" where
  "tensor_parallel_sample sample mem e net st logits top_p top_k temperature =
     (let world_size = tp_world_size e;
          rank = tp_rank e;
          dst_rank = tp_src_rank e;
          tensor_list = (if rank = 0 then map (\<lambda>k. empty_like (mem k) logits) [0..<world_size]
                         else []);
          st1 = emit (GatherCall logits tensor_list dst_rank (tp_group e)) st
      in case gather (global_rank e) (net[rank := logits]) logits tensor_list dst_rank
                (tp_group e) of
           Inl err \<Rightarrow> (Inl err, st1)
         | Inr tensor_list' \<Rightarrow>
             if rank = 0 then
               (case cat_last tensor_list' of
                  Inl err \<Rightarrow> (Inl err, st1)
                | Inr logits' \<Rightarrow>
                    let st2 = emit (SampleCall logits' top_p top_k temperature) st1
                    in (case sample (gen st2) logits' top_p top_k temperature of
                          Inl err \<Rightarrow> (Inl err, st2)
                        | Inr (new_token, g') \<Rightarrow> (Inr new_token, st2\<lparr>gen := g'\<rparr>)))
             else
               (case select_last0 logits of
                  Inl err \<Rightarrow> (Inl err, st1)
                | Inr sl \<Rightarrow> (Inr (empty_like (mem 0) sl), st1)))"

text \<open>
  The events recorded by a participant, by kind.
\<close>

fun is_gather :: "'a event \<Rightarrow> bool" where
  "is_gather (GatherCall _ _ _ _) = True"
| "is_gather (SampleCall _ _ _ _) = False"

fun is_sample :: "'a event \<Rightarrow> bool" where
  "is_sample (SampleCall _ _ _ _) = True"
| "is_sample (GatherCall _ _ _ _) = False"

text \<open>
  The events a call adds to the state it started in, the collective calls among them, and
  whether the call reached the sampling primitive.
\<close>

definition new_events ::
  "('a, 'g) pstate \<Rightarrow> (error + 'a tensor) \<times> ('a, 'g) pstate \<Rightarrow> 'a event list" where
  "new_events st out = drop (length (events st)) (events (snd out))"

definition collectives ::
  "('a, 'g) pstate \<Rightarrow> (error + 'a tensor) \<times> ('a, 'g) pstate \<Rightarrow> 'a event list" where
  "collectives st out = filter is_gather (new_events st out)"

definition performs_sampling ::
  "('a, 'g) pstate \<Rightarrow> (error + 'a tensor) \<times> ('a, 'g) pstate \<Rightarrow> bool" where
  "performs_sampling st out = (filter is_sample (new_events st out) \<noteq> [])"

text \<open>
  Sampling directly from a logits tensor held locally, with no tensor parallelism: one
  call of the sampling primitive in the current generator state. This is the reference
  the sharded computation is compared with.
\<close>

definition direct_sample ::
  "('a, 'g) sampler \<Rightarrow> ('a, 'g) pstate \<Rightarrow> 'a tensor \<Rightarrow> real \<Rightarrow> int \<Rightarrow> real \<Rightarrow>
   (error + 'a tensor) \<times> ('a, 'g) pstate" where
  "direct_sample sample st logits top_p top_k temperature =
     (let st2 = emit (SampleCall logits top_p top_k temperature) st
      in case sample (gen st2) logits top_p top_k temperature of
           Inl err \<Rightarrow> (Inl err, st2)
         | Inr (new_token, g') \<Rightarrow> (Inr new_token, st2\<lparr>gen := g'\<rparr>))"

text \<open>
  The shards of a full-vocabulary tensor. \<open>shard full off v\<close> holds the columns
  \<open>off, \<dots>, off + v - 1\<close> of every row of \<open>full\<close>; \<open>partition_last full 0 vs\<close> cuts
  \<open>full\<close> into consecutive shards of the widths \<open>vs\<close>, the shard of ordinal 0 first.
  Such a partition is contiguous and non-overlapping by construction, and it covers the
  vocabulary when the widths add up to the width of \<open>full\<close>, one width per participant.
\<close>

definition shard :: "'a tensor \<Rightarrow> nat \<Rightarrow> nat \<Rightarrow> 'a tensor" where
  "shard full off v =
     \<lparr>dtype = dtype full, shape = lead_dims full @ [v],
      elems = concat (map (\<lambda>r. take v (drop off (row full r))) [0..<nrows full])\<rparr>"

fun partition_last :: "'a tensor \<Rightarrow> nat \<Rightarrow> nat list \<Rightarrow> 'a tensor list" where
  "partition_last full off [] = []"
| "partition_last full off (v # vs) = shard full off v # partition_last full (off + v) vs"

definition valid_partition :: "'a tensor \<Rightarrow> nat \<Rightarrow> nat list \<Rightarrow> bool" where
  "valid_partition full W vs = (0 < W \<and> length vs = W \<and> sum_list vs = width full)"

text \<open>
  One invocation across a whole group: the member of ordinal \<open>r\<close> has global rank
  \<open>grp ! r\<close>, holds the shard \<open>net ! r\<close> and starts in state \<open>sts r\<close>; every member is
  given the same destination \<open>dst\<close> and the same sampling parameters.
\<close>

definition member_env :: "nat \<Rightarrow> nat list \<Rightarrow> nat \<Rightarrow> env" where
  "member_env dst grp r =
     \<lparr>tp_world_size = length grp, tp_rank = r, tp_src_rank = dst, tp_group = grp,
      global_rank = grp ! r\<rparr>"

definition group_run ::
  "('a, 'g) sampler \<Rightarrow> (nat \<Rightarrow> nat \<Rightarrow> 'a) \<Rightarrow> nat \<Rightarrow> nat list \<Rightarrow> 'a tensor list \<Rightarrow>
   (nat \<Rightarrow> ('a, 'g) pstate) \<Rightarrow> real \<Rightarrow> int \<Rightarrow> real \<Rightarrow>
   ((error + 'a tensor) \<times> ('a, 'g) pstate) list" where
  "group_run sample mem dst grp net sts top_p top_k temperature =
     map (\<lambda>r. tensor_parallel_sample sample mem (member_env dst grp r) net (sts r) (net ! r)
                 top_p top_k temperature) [0..<length grp]"

text \<open>
  Modelled from the spec: what the sampling primitive \<^verbatim>\<open>sample\<close> returns, which the file
  under study does not contain. It returns one integer token id per batch row: a tensor
  with the leading dimensions of the logits, of the integer token type.
\<close>

definition one_token_per_row :: "('a, 'g) sampler \<Rightarrow> bool" where
  "one_token_per_row sample =
     (\<forall>g logits top_p top_k temperature tok g'.
        sample g logits top_p top_k temperature = Inr (tok, g') \<longrightarrow>
        shape tok = lead_dims logits \<and> dtype tok = Int64)"

text \<open>
  Modelled from the spec: an instance of the sampling primitive, used to evaluate the
  theorems at concrete inputs. It is greedy decoding (\<open>top_k = 1\<close>, \<open>top_p = 0\<close>: the
  arg-max token of every row, the first one among equals), rejects a non-positive
  temperature, and ignores the generator.
\<close>

fun argmax :: "int list \<Rightarrow> nat" where
  "argmax [] = 0"
| "argmax (x # xs) = (if list_all (\<lambda>y. y \<le> x) xs then 0 else Suc (argmax xs))"

definition greedy_sample :: "(int, 'g) sampler" where
  "greedy_sample g logits top_p top_k temperature =
     (if temperature \<le> 0 then Inl SampleError
      else if top_k \<noteq> 1 \<or> top_p \<noteq> 0 then Inl SampleError
      else if shape logits = [] \<or> width logits = 0 then Inl SampleError
      else Inr (\<lparr>dtype = Int64, shape = lead_dims logits,
                 elems = map (\<lambda>r. int (argmax (row logits r))) [0..<nrows logits]\<rparr>, g))"

section \<open>get\_batch\_pipe\<close>

text \<open>
  Python slice bounds against a dimension of size \<open>d\<close>: a negative bound counts from
  the end, and every bound is clipped to \<open>0..d\<close>; a missing bound is the start or the
  end of the dimension.
\<close>

definition py_index :: "int \<Rightarrow> nat \<Rightarrow> nat" where
  "py_index i d = (if i < 0 then nat (max (i + int d) 0) else min (nat i) d)"

definition slice_bounds :: "int option \<Rightarrow> int option \<Rightarrow> nat \<Rightarrow> nat \<times> nat" where
  "slice_bounds lo hi d =
     (case lo of None \<Rightarrow> 0 | Some i \<Rightarrow> py_index i d,
      case hi of None \<Rightarrow> d | Some i \<Rightarrow> py_index i d)"

text \<open>
  \<^verbatim>\<open>t[:, lo:hi]\<close>: the slice of dimension 1, all of dimension 0 and of the dimensions after
  dimension 1. A tensor with fewer than two dimensions raises IndexError.
  \<^verbatim>\<open>.contiguous()\<close> does not change shape, dtype or elements.
\<close>

definition slice_dim1 :: "int option \<Rightarrow> int option \<Rightarrow> 'a tensor \<Rightarrow> error + 'a tensor" where
  "slice_dim1 lo hi t =
     (if length (shape t) < 2 then Inl IndexError
      else
        let d0 = shape t ! 0;
            d1 = shape t ! 1;
            inner = prod_list (drop 2 (shape t));
            a = fst (slice_bounds lo hi d1);
            c = snd (slice_bounds lo hi d1);
            k = c - a
        in Inr \<lparr>dtype = dtype t, shape = d0 # k # drop 2 (shape t),
                 elems = concat (map (\<lambda>i. take (k * inner) (drop ((i * d1 + a) * inner) (elems t)))
                                  [0..<d0])\<rparr>)"

text \<open>
  \<^verbatim>\<open>t.squeeze(1)\<close> removes dimension 1 when its size is 1 and leaves the tensor as it is
  otherwise; \<^verbatim>\<open>t.long()\<close> gives the 64-bit integer tensor (the values are integers
  already: the broadcast is asked for \<^verbatim>\<open>torch.int64\<close>).
\<close>

definition squeeze1 :: "'a tensor \<Rightarrow> 'a tensor" where
  "squeeze1 t =
     (if 1 < length (shape t) \<and> shape t ! 1 = 1
      then t\<lparr>shape := shape t ! 0 # drop 2 (shape t)\<rparr> else t)"

definition long :: "'a tensor \<Rightarrow> 'a tensor" where
  "long t = t\<lparr>dtype := Int64\<rparr>"

text \<open>
  The fields of \<^verbatim>\<open>get_args()\<close> that \<^verbatim>\<open>get_batch_pipe\<close> reads.
\<close>

record args =
  reset_position_ids :: bool
  reset_attention_mask :: bool
  eod_mask_loss :: bool
  curriculum_learning_legacy :: bool
  curriculum_seqlen :: int

type_synonym 'a batch = "string \<rightharpoonup> 'a tensor"

type_synonym 'a broadcaster = "string list \<Rightarrow> 'a batch \<Rightarrow> dtype \<Rightarrow> error + 'a batch"

type_synonym 'a masker =
  "'a tensor \<Rightarrow> 'a \<Rightarrow> bool \<Rightarrow> bool \<Rightarrow> bool \<Rightarrow> error + ('a tensor \<times> 'a tensor \<times> 'a tensor)"

text \<open>
  \<^verbatim>\<open>
  def get_batch_pipe(data):
      args = get_args()
      tokenizer = get_tokenizer()
      if data['text'].dim() == 3:
          data['text'] = data['text'].squeeze(1)
      keys = ['text']
      datatype = torch.int64
      data_b = tensor_parallel.broadcast_data(keys, data, datatype)
      tokens_ = data_b['text'].long()
      labels = tokens_[:, 1:].contiguous()
      tokens = tokens_[:, :-1].contiguous()
      attention_mask, loss_mask, position_ids = get_ltor_masks_and_position_ids(
          tokens, tokenizer.eod, args.reset_position_ids, args.reset_attention_mask,
          args.eod_mask_loss)
      if args.curriculum_learning_legacy and args.curriculum_seqlen < tokens.size()[1]:
          tokens = tokens[:, :args.curriculum_seqlen].contiguous()
          position_ids = position_ids[:, :args.curriculum_seqlen].contiguous()
          if labels is not None:
              labels = labels[:, :args.curriculum_seqlen].contiguous()
          loss_mask = loss_mask[:, :args.curriculum_seqlen].contiguous()
      return (tokens, position_ids, attention_mask), (labels, loss_mask)
  \<close>
  \<^verbatim>\<open>tensor_parallel.broadcast_data\<close> and \<^verbatim>\<open>get_ltor_masks_and_position_ids\<close> are not part
  of the file; they are the parameters \<open>broadcast_data\<close> and \<open>get_ltor\<close>, which fail or
  return the broadcast dictionary and the triple (attention mask, loss mask, position
  ids); \<open>tokens_full\<close> stands for \<^verbatim>\<open>tokens_\<close>. \<open>a\<close> is \<^verbatim>\<open>get_args()\<close> and \<open>eod\<close> is
  \<^verbatim>\<open>tokenizer.eod\<close>. The batch dictionary is
  updated in place by the squeeze, so the function returns it next to its result.
\<close>

definition get_batch_pipe ::
  "'a broadcaster \<Rightarrow> 'a masker \<Rightarrow> args \<Rightarrow> 'a \<Rightarrow> 'a batch \<Rightarrow>
   (error + (('a tensor \<times> 'a tensor \<times> 'a tensor) \<times> ('a tensor \<times> 'a tensor))) \<times> 'a batch" where
  "get_batch_pipe broadcast_data get_ltor a eod data =
     (case data ''text'' of
        None \<Rightarrow> (Inl KeyError, data)
      | Some text \<Rightarrow>
          (let data1 = (if length (shape text) = 3 then (data(''text'' \<mapsto> squeeze1 text)) else data);
               keys = [''text''];
               datatype = Int64
           in (case broadcast_data keys data1 datatype of
                 Inl err \<Rightarrow> (Inl err, data1)
               | Inr data_b \<Rightarrow>
                   (case data_b ''text'' of
                      None \<Rightarrow> (Inl KeyError, data1)
                    | Some tb \<Rightarrow>
                        (let tokens_full = long tb
                         in (case slice_dim1 (Some 1) None tokens_full of
                               Inl err \<Rightarrow> (Inl err, data1)
                             | Inr labels \<Rightarrow>
                        (case slice_dim1 None (Some (- 1)) tokens_full of
                               Inl err \<Rightarrow> (Inl err, data1)
                             | Inr tokens \<Rightarrow>
                        (case get_ltor tokens eod (reset_position_ids a) (reset_attention_mask a)
                                (eod_mask_loss a) of
                               Inl err \<Rightarrow> (Inl err, data1)
                             | Inr (attention_mask, loss_mask, position_ids) \<Rightarrow>
                                 (if curriculum_learning_legacy a
                                     \<and> curriculum_seqlen a < int (shape tokens ! 1)
                                  then
                                    (case slice_dim1 None (Some (curriculum_seqlen a)) tokens of
                                       Inl err \<Rightarrow> (Inl err, data1)
                                     | Inr tokens' \<Rightarrow>
                                    (case slice_dim1 None (Some (curriculum_seqlen a)) position_ids of
                                       Inl err \<Rightarrow> (Inl err, data1)
                                     | Inr position_ids' \<Rightarrow>
                                    (case slice_dim1 None (Some (curriculum_seqlen a)) labels of
                                       Inl err \<Rightarrow> (Inl err, data1)
                                     | Inr labels' \<Rightarrow>
                                    (case slice_dim1 None (Some (curriculum_seqlen a)) loss_mask of
                                       Inl err \<Rightarrow> (Inl err, data1)
                                     | Inr loss_mask' \<Rightarrow>
                                         (Inr ((tokens', position_ids', attention_mask),
                                               (labels', loss_mask')), data1)))))
                                  else (Inr ((tokens, position_ids, attention_mask),
                                             (labels, loss_mask)), data1))))))))))"

text \<open>
  Instances of the two parameters, used to evaluate the theorems at concrete inputs: a
  broadcast on the source rank, which hands back the dictionary it was given, and a mask
  helper that returns a lower-triangular attention mask for the sequence length, a loss
  mask of ones and the positions \<open>0, 1, \<dots>\<close> of every row.
\<close>

definition local_broadcast :: "'a broadcaster" where
  "local_broadcast keys data datatype = Inr data"

definition plain_masks :: "int masker" where
  "plain_masks tokens eod rp ra em =
     (if length (shape tokens) \<noteq> 2 then Inl MaskError
      else
        let b = shape tokens ! 0; s = shape tokens ! 1
        in Inr (\<lparr>dtype = Bool, shape = [1, 1, s, s],
                 elems = concat (map (\<lambda>i. map (\<lambda>j. if j \<le> i then 0 else 1) [0..<s]) [0..<s])\<rparr>,
                \<lparr>dtype = Float32, shape = [b, s], elems = replicate (b * s) 1\<rparr>,
                \<lparr>dtype = Int64, shape = [b, s],
                 elems = concat (map (\<lambda>i. map int [0..<s]) [0..<b])\<rparr>))"

section \<open>Example inputs\<close>

text \<open>
  A batch of two rows over a vocabulary of four entries, a group of two participants with
  the global ranks 4 and 5, an allocator that returns zeros, and an initial state.
\<close>

definition ex_full :: "int tensor" where
  "ex_full = \<lparr>dtype = Float32, shape = [2, 4], elems = [1, 5, 9, 3, 8, 2, 0, 7]\<rparr>"

definition ex_mem :: "nat \<Rightarrow> nat \<Rightarrow> int" where
  "ex_mem k i = 0"

definition ex_state :: "(int, nat) pstate" where
  "ex_state = \<lparr>events = [], gen = 7\<rparr>"

definition ex_args :: args where
  "ex_args = \<lparr>reset_position_ids = False, reset_attention_mask = False, eod_mask_loss = False,
              curriculum_learning_legacy = False, curriculum_seqlen = 0\<rparr>"

definition ex_text :: "int tensor" where
  "ex_text = \<lparr>dtype = Int64, shape = [2, 1, 4], elems = [11, 12, 13, 14, 21, 22, 23, 24]\<rparr>"

definition ex_late :: "int tensor" where
  "ex_late = \<lparr>dtype = Float32, shape = [2, 4], elems = [1, 5, 3, 9, 8, 2, 0, 10]\<rparr>"

definition ex_net :: "int tensor list" where
  "ex_net = partition_last ex_full 0 [2, 2]"

definition ex_single :: env where
  "ex_single = \<lparr>tp_world_size = 1, tp_rank = 0, tp_src_rank = 4, tp_group = [4], global_rank = 4\<rparr>"

text \<open>
  A group as the framework sets it up, with the shards its members hold: at least one
  member, distinct global ranks, one shard per member, all shards well-formed and of one
  shape and dtype, with a vocabulary dimension that is not empty.
\<close>

definition well_formed_group :: "nat list \<Rightarrow> 'a tensor list \<Rightarrow> bool" where
  "well_formed_group grp net =
     (grp \<noteq> [] \<and> distinct grp \<and> length net = length grp
      \<and> list_all (fits (hd net)) net \<and> list_all wf_tensor net
      \<and> shape (hd net) \<noteq> [] \<and> 0 < width (hd net))"

text \<open>
  A batch dictionary holding \<open>ex_text\<close>, and arguments that switch the legacy
  sequence-length curriculum on with a sequence length of 2.
\<close>

definition ex_data :: "int batch" where
  "ex_data = Map.empty(''text'' \<mapsto> ex_text)"

definition ex_args_curriculum :: args where
  "ex_args_curriculum = ex_args\<lparr>curriculum_learning_legacy := True, curriculum_seqlen := 2\<rparr>"

section \<open>Rows, shards and concatenation\<close>

lemma take_drop_concat_uniform:
  "\<forall>x\<in>set xss. length x = v \<Longrightarrow> r < length xss \<Longrightarrow> take v (drop (r * v) (concat xss)) = xss ! r"
proof (induction xss arbitrary: r)
  case Nil then show ?case by simp
next
  case (Cons x xss)
  show ?case
  proof (cases r)
    case 0 with Cons.prems show ?thesis by simp
  next
    case (Suc r')
    with Cons.prems have "r' < length xss" by simp
    with Cons have IH: "take v (drop (r' * v) (concat xss)) = xss ! r'" by simp
    from Cons.prems have lx: "length x = v" by simp
    show ?thesis using IH lx Suc by (simp add: add.commute)
  qed
qed

lemma concat_chunks:
  "length xs = n * v \<Longrightarrow> concat (map (\<lambda>r. take v (drop (r * v) xs)) [0..<n]) = xs"
proof (induction n arbitrary: xs)
  case 0 then show ?case by simp
next
  case (Suc n)
  have len: "length (drop v xs) = n * v" using Suc.prems by simp
  have "concat (map (\<lambda>r. take v (drop (r * v) xs)) [0..<Suc n]) =
        take v xs @ concat (map (\<lambda>r. take v (drop (Suc r * v) xs)) [0..<n])"
    by (simp add: map_upt_Suc del: upt_Suc)
  also have "(\<lambda>r. take v (drop (Suc r * v) xs)) = (\<lambda>r. take v (drop (r * v) (drop v xs)))"
    by (simp add: add.commute)
  also have "concat (map (\<lambda>r. take v (drop (r * v) (drop v xs))) [0..<n]) = drop v xs"
    using Suc.IH[OF len] .
  finally show ?case by simp
qed

lemma numel_rows: "shape t \<noteq> [] \<Longrightarrow> numel t = nrows t * width t"
proof -
  assume "shape t \<noteq> []"
  then have "shape t = butlast (shape t) @ [last (shape t)]" by simp
  then have "prod_list (shape t) = prod_list (butlast (shape t) @ [last (shape t)])" by simp
  then show ?thesis by (simp add: numel_def nrows_def width_def lead_dims_def)
qed

lemma length_row:
  assumes "wf_tensor t" "shape t \<noteq> []" "r < nrows t"
  shows "length (row t r) = width t"
proof -
  have "Suc r * width t \<le> nrows t * width t" using assms(3) by (intro mult_le_mono1) simp
  then have "r * width t + width t \<le> length (elems t)"
    using assms by (simp add: wf_tensor_def numel_rows add.commute)
  then show ?thesis by (simp add: row_def)
qed

lemma concat_rows:
  assumes "wf_tensor t" "shape t \<noteq> []"
  shows "concat (map (row t) [0..<nrows t]) = elems t"
proof -
  have "length (elems t) = nrows t * width t" using assms by (simp add: wf_tensor_def numel_rows)
  from concat_chunks[OF this] show ?thesis by (simp add: row_def[abs_def])
qed

lemma width_shard: "width (shard full off v) = v"
  by (simp add: width_def shard_def)

lemma lead_dims_shard: "lead_dims (shard full off v) = lead_dims full"
  by (simp add: lead_dims_def shard_def)

lemma nrows_shard: "nrows (shard full off v) = nrows full"
  by (simp add: nrows_def lead_dims_shard)

lemma row_shard:
  assumes "wf_tensor full" "shape full \<noteq> []" "off + v \<le> width full" "r < nrows full"
  shows "row (shard full off v) r = take v (drop off (row full r))"
proof -
  let ?xss = "map (\<lambda>r. take v (drop off (row full r))) [0..<nrows full]"
  have "\<forall>x\<in>set ?xss. length x = v"
    using assms(1-3) by (auto simp: length_row)
  moreover have "r < length ?xss" using assms(4) by simp
  ultimately have "take v (drop (r * v) (concat ?xss)) = ?xss ! r"
    by (rule take_drop_concat_uniform)
  then show ?thesis using assms(4) by (simp add: row_def[of "shard full off v"] width_shard) (simp add: shard_def)
qed

lemma wf_shard:
  assumes "wf_tensor full" "shape full \<noteq> []" "off + v \<le> width full"
  shows "wf_tensor (shard full off v)"
proof -
  let ?xss = "map (\<lambda>r. take v (drop off (row full r))) [0..<nrows full]"
  have "map length ?xss = replicate (nrows full) v"
    using assms by (intro replicate_eqI) (auto simp: length_row)
  then have "length (concat ?xss) = nrows full * v"
    by (simp add: length_concat sum_list_replicate)
  then show ?thesis
    by (simp add: wf_tensor_def numel_def shard_def nrows_def)
qed

lemma partition_last_nth:
  "j < n \<Longrightarrow> partition_last full off (replicate n v) ! j = shard full (off + j * v) v"
proof (induction n arbitrary: off j)
  case 0 then show ?case by simp
next
  case (Suc n)
  then show ?case by (cases j) (simp_all add: add.assoc)
qed

lemma length_partition_last: "length (partition_last full off vs) = length vs"
  by (induction vs arbitrary: off) simp_all

lemma partition_last_replicate:
  "partition_last full off (replicate n v) = map (\<lambda>j. shard full (off + j * v) v) [0..<n]"
  by (rule nth_equalityI) (simp_all add: length_partition_last partition_last_nth)

lemma cat_last_uniform:
  assumes "ts \<noteq> []" "shape (hd ts) \<noteq> []" "list_all (fits (hd ts)) ts"
  shows "cat_last ts =
     Inr \<lparr>dtype = dtype (hd ts),
          shape = lead_dims (hd ts) @ [length ts * width (hd ts)],
          elems = concat (map (\<lambda>r. concat (map (\<lambda>u. row u r) ts)) [0..<nrows (hd ts)])\<rparr>"
proof -
  obtain t rest where ts: "ts = t # rest" using assms(1) by (cases ts) auto
  have all: "\<forall>u\<in>set ts. shape u = shape t \<and> dtype u = dtype t"
    using assms(3) by (auto simp: ts list_all_iff fits_def)
  then have comp: "list_all (cat_compatible t) rest"
    using assms(2) by (auto simp: ts list_all_iff cat_compatible_def lead_dims_def)
  have "map width ts = replicate (length ts) (width t)"
    using all by (intro replicate_eqI) (auto simp: width_def)
  then have "sum_list (map width ts) = length ts * width t"
    by (simp add: sum_list_replicate)
  then show ?thesis using comp assms(2) by (simp add: cat_last_def ts)
qed

lemma cat_last_partition:
  assumes wf: "wf_tensor full" and ne: "shape full \<noteq> []" and w: "width full = n * v" and n: "0 < n"
  shows "cat_last (partition_last full 0 (replicate n v)) = Inr full"
proof -
  let ?ts = "map (\<lambda>j. shard full (j * v) v) [0..<n]"
  have ts: "partition_last full 0 (replicate n v) = ?ts"
    by (simp add: partition_last_replicate)
  have hd: "hd ?ts = shard full 0 v" using n by (simp add: hd_map upt_conv_Cons)
  have 1: "?ts \<noteq> []" using n by simp
  have 2: "shape (hd ?ts) \<noteq> []" unfolding hd by (simp add: shard_def)
  have 3: "list_all (fits (hd ?ts)) ?ts"
    unfolding hd by (simp add: list_all_iff fits_def shard_def)
  have rows: "concat (map (\<lambda>u. row u r) ?ts) = row full r" if r: "r < nrows full" for r
  proof -
    have A: "map (\<lambda>u. row u r) ?ts = map (\<lambda>j. take v (drop (j * v) (row full r))) [0..<n]"
    proof -
      have "row (shard full (j * v) v) r = take v (drop (j * v) (row full r))" if "j < n" for j
      proof -
        from that have "Suc j * v \<le> n * v" by (intro mult_le_mono1) simp
        then have "j * v + v \<le> width full" by (simp add: w add.commute)
        from row_shard[OF wf ne this r] show ?thesis .
      qed
      then show ?thesis by simp
    qed
    have B: "length (row full r) = n * v" using length_row[OF wf ne r] w by simp
    show ?thesis unfolding A by (rule concat_chunks[OF B])
  qed
  have "map (\<lambda>r. concat (map (\<lambda>u. row u r) ?ts)) [0..<nrows full] = map (row full) [0..<nrows full]"
  proof (rule map_cong[OF refl])
    fix r assume "r \<in> set [0..<nrows full]"
    then have "r < nrows full" by simp
    then show "concat (map (\<lambda>u. row u r) ?ts) = row full r" by (rule rows)
  qed
  then have "concat (map (\<lambda>r. concat (map (\<lambda>u. row u r) ?ts)) [0..<nrows full]) = concat (map (row full) [0..<nrows full])"
    by (rule arg_cong)
  also have "\<dots> = elems full" by (rule concat_rows[OF wf ne])
  finally have el: "concat (map (\<lambda>r. concat (map (\<lambda>u. row u r) ?ts)) [0..<nrows full]) = elems full" .
  have sh: "lead_dims full @ [n * v] = shape full"
  proof -
    have "butlast (shape full) @ [last (shape full)] = shape full" using ne by simp
    then show ?thesis using w by (simp add: lead_dims_def width_def)
  qed
  have d: "dtype (shard full 0 v) = dtype full" by (simp add: shard_def)
  have l: "length ?ts = n" by simp
  show ?thesis
    unfolding ts cat_last_uniform[OF 1 2 3] hd nrows_shard el lead_dims_shard width_shard d l sh
    by simp
qed

lemma receive_fitting:
  assumes "fits logits s" and "wf_tensor s"
  shows "receive (empty_like m logits) s = s"
proof -
  have "numel s = numel logits" using assms(1) by (simp add: fits_def numel_def)
  then have "drop (length (elems s)) (elems (empty_like m logits)) = []"
    using assms(2) by (simp add: wf_tensor_def empty_like_def)
  then show ?thesis
    using assms(1) by (simp add: receive_def empty_like_def fits_def)
qed

lemma gathered_buffers:
  assumes "length sent = n" "list_all (fits logits) sent" "list_all wf_tensor sent"
  shows "map2 receive (map (\<lambda>k. empty_like (mem k) logits) [0..<n]) sent = sent"
proof (rule nth_equalityI)
  show "length (map2 receive (map (\<lambda>k. empty_like (mem k) logits) [0..<n]) sent) = length sent"
    using assms(1) by simp
next
  fix i assume "i < length (map2 receive (map (\<lambda>k. empty_like (mem k) logits) [0..<n]) sent)"
  then have i: "i < n" using assms(1) by simp
  then have "fits logits (sent ! i)" "wf_tensor (sent ! i)"
    using assms by (simp_all add: list_all_length)
  then show "map2 receive (map (\<lambda>k. empty_like (mem k) logits) [0..<n]) sent ! i = sent ! i"
    using i assms(1) by (simp add: receive_fitting)
qed

lemma gather_dst:
  assumes "length sent = n" "length grp = n" "0 < n" "dst \<in> set grp"
    "list_all (fits logits) sent" "list_all wf_tensor sent"
  shows "gather dst sent logits (map (\<lambda>k. empty_like (mem k) logits) [0..<n]) dst grp = Inr sent"
proof -
  have a: "list_all (fits logits) (map (\<lambda>k. empty_like (mem k) logits) [0..<n])"
    by (simp add: list_all_iff fits_def empty_like_def)
  have b: "list_all2 (\<lambda>b s. nbytes s \<le> nbytes b) (map (\<lambda>k. empty_like (mem k) logits) [0..<n]) sent"
    using assms(1,5)
    by (simp add: list_all2_conv_all_nth list_all_length fits_def empty_like_def nbytes_def numel_def)
  show ?thesis
    using assms(1-4) a b by (simp add: gather_def gathered_buffers[OF assms(1,5,6)])
qed

section \<open>The two branches of tensor\_parallel\_sample\<close>

lemma tps_rank0:
  assumes "tp_rank e = 0"
  shows "tensor_parallel_sample sample mem e net st logits top_p top_k temperature =
     (let bufs = map (\<lambda>k. empty_like (mem k) logits) [0..<tp_world_size e];
          st1 = emit (GatherCall logits bufs (tp_src_rank e) (tp_group e)) st
      in case gather (global_rank e) (net[0 := logits]) logits bufs (tp_src_rank e) (tp_group e) of
           Inl err \<Rightarrow> (Inl err, st1)
         | Inr tensor_list' \<Rightarrow>
             (case cat_last tensor_list' of
                Inl err \<Rightarrow> (Inl err, st1)
              | Inr logits' \<Rightarrow> direct_sample sample st1 logits' top_p top_k temperature))"
  using assms by (simp add: tensor_parallel_sample_def direct_sample_def Let_def split: sum.splits)

lemma tps_other:
  assumes "tp_rank e \<noteq> 0"
  shows "tensor_parallel_sample sample mem e net st logits top_p top_k temperature =
     (let st1 = emit (GatherCall logits [] (tp_src_rank e) (tp_group e)) st
      in case gather (global_rank e) (net[tp_rank e := logits]) logits [] (tp_src_rank e)
                (tp_group e) of
           Inl err \<Rightarrow> (Inl err, st1)
         | Inr tensor_list' \<Rightarrow>
             (case select_last0 logits of
                Inl err \<Rightarrow> (Inl err, st1)
              | Inr sl \<Rightarrow> (Inr (empty_like (mem 0) sl), st1)))"
  using assms by (simp add: tensor_parallel_sample_def Let_def split: sum.splits)

lemma tps_destination:
  assumes r0: "tp_rank e = 0" and me: "global_rank e = tp_src_rank e"
    and mem: "tp_src_rank e \<in> set (tp_group e)"
    and lg: "length (tp_group e) = tp_world_size e" and ln: "length net = tp_world_size e"
    and pos: "0 < tp_world_size e"
    and fit: "list_all (fits logits) (net[0 := logits])"
    and wfs: "list_all wf_tensor (net[0 := logits])"
  shows "tensor_parallel_sample sample mem e net st logits top_p top_k temperature =
     (let st1 = emit (GatherCall logits (map (\<lambda>k. empty_like (mem k) logits) [0..<tp_world_size e])
                        (tp_src_rank e) (tp_group e)) st
      in case cat_last (net[0 := logits]) of
           Inl err \<Rightarrow> (Inl err, st1)
         | Inr logits' \<Rightarrow> direct_sample sample st1 logits' top_p top_k temperature)"
proof -
  have "gather (tp_src_rank e) (net[0 := logits]) logits
          (map (\<lambda>k. empty_like (mem k) logits) [0..<tp_world_size e]) (tp_src_rank e) (tp_group e)
        = Inr (net[0 := logits])"
    by (rule gather_dst) (use assms in simp_all)
  then show ?thesis by (simp add: tps_rank0[OF r0] me Let_def)
qed

lemma tps_placeholder:
  assumes r: "tp_rank e \<noteq> 0" and me: "global_rank e \<noteq> tp_src_rank e"
    and mem: "tp_src_rank e \<in> set (tp_group e)"
    and ne: "shape logits \<noteq> []" and w: "0 < width logits"
  shows "tensor_parallel_sample sample mem e net st logits top_p top_k temperature =
     (Inr \<lparr>dtype = dtype logits, shape = lead_dims logits,
           elems = map (mem 0) [0..<nrows logits]\<rparr>,
      emit (GatherCall logits [] (tp_src_rank e) (tp_group e)) st)"
  using assms
  by (simp add: tps_other[OF r] gather_def select_last0_def empty_like_def numel_def nrows_def Let_def)

section \<open>Sharded sampling against direct sampling\<close>

text \<open>
  Claim C1, for shards of equal width. Let the vocabulary of a well-formed tensor \<open>full\<close>
  be cut into \<open>W\<close> consecutive shards of the same width \<open>v\<close> (a valid partition), one
  per participant in ascending ordinal order. On the participant of ordinal 0 that is
  also the destination of the gather, \<open>tensor_parallel_sample\<close> returns what sampling
  directly from \<open>full\<close> returns in the same generator state, with the same sampling
  parameters, and leaves the generator in the same state.
\<close>

theorem c1_equal_shards:
  assumes "wf_tensor full" and "shape full \<noteq> []"
    and "valid_partition full W (replicate W v)"
    and "tp_rank e = 0" and "tp_world_size e = W" and "length (tp_group e) = W"
    and "global_rank e = tp_src_rank e" and "tp_src_rank e \<in> set (tp_group e)"
    and "net = partition_last full 0 (replicate W v)"
  shows "fst (tensor_parallel_sample sample mem e net st (net ! 0) top_p top_k temperature) =
           fst (direct_sample sample st full top_p top_k temperature)
       \<and> gen (snd (tensor_parallel_sample sample mem e net st (net ! 0) top_p top_k temperature)) =
           gen (snd (direct_sample sample st full top_p top_k temperature))"
proof -
  have W: "0 < W" and wd: "width full = W * v"
    using assms(3) by (simp_all add: valid_partition_def sum_list_replicate)
  have net: "net = map (\<lambda>j. shard full (j * v) v) [0..<W]"
    using assms(9) by (simp add: partition_last_replicate)
  have len: "length net = W" by (simp add: net)
  then have upd: "net[0 := net ! 0] = net" by simp
  have n0: "net ! 0 = shard full 0 v" using W by (simp add: net)
  have A: "list_all (fits (shard full 0 v)) net"
    by (simp add: net list_all_iff fits_def shard_def)
  have fit: "list_all (fits (net ! 0)) (net[0 := net ! 0])"
    by (subst upd, subst n0, rule A)
  have "wf_tensor (shard full (j * v) v)" if "j < W" for j
  proof -
    from that have "Suc j * v \<le> W * v" by (intro mult_le_mono1) simp
    then have "j * v + v \<le> width full" by (simp add: wd add.commute)
    then show ?thesis by (rule wf_shard[OF assms(1,2)])
  qed
  then have "list_all wf_tensor net" by (simp add: net list_all_iff)
  then have wfs: "list_all wf_tensor (net[0 := net ! 0])" by (simp only: upd)
  have cat: "cat_last net = Inr full"
    unfolding assms(9) by (rule cat_last_partition) (use assms W wd in simp_all)
  have "tensor_parallel_sample sample mem e net st (net ! 0) top_p top_k temperature =
        direct_sample sample
          (emit (GatherCall (net ! 0) (map (\<lambda>k. empty_like (mem k) (net ! 0)) [0..<tp_world_size e])
                   (tp_src_rank e) (tp_group e)) st) full top_p top_k temperature"
    using tps_destination[of e net "net ! 0" sample mem st top_p top_k temperature]
      assms(4-8) W len fit wfs
    by (simp add: upd cat Let_def)
  then show ?thesis
    by (simp add: direct_sample_def emit_def Let_def split: sum.splits prod.splits)
qed

theorem c1_equal_shards_witness:
  "wf_tensor ex_full \<and> valid_partition ex_full 2 (replicate 2 2)
   \<and> fst (tensor_parallel_sample greedy_sample ex_mem (member_env 4 [4, 5] 0)
            (partition_last ex_full 0 (replicate 2 2)) ex_state
            (partition_last ex_full 0 (replicate 2 2) ! 0) 0 1 1) =
       fst (direct_sample greedy_sample ex_state ex_full 0 1 1)
   \<and> fst (direct_sample greedy_sample ex_state ex_full 0 1 1) =
       Inr \<lparr>dtype = Int64, shape = [2], elems = [2, 0]\<rparr>"
proof -
  have 1: "wf_tensor ex_full" by code_simp
  have 2: "shape ex_full \<noteq> []" by code_simp
  have 3: "valid_partition ex_full 2 (replicate 2 2)" by code_simp
  have 4: "tp_rank (member_env 4 [4, 5] 0) = 0" by code_simp
  have 5: "tp_world_size (member_env 4 [4, 5] 0) = 2" by code_simp
  have 6: "length (tp_group (member_env 4 [4, 5] 0)) = 2" by code_simp
  have 7: "global_rank (member_env 4 [4, 5] 0) = tp_src_rank (member_env 4 [4, 5] 0)" by code_simp
  have 8: "tp_src_rank (member_env 4 [4, 5] 0) \<in> set (tp_group (member_env 4 [4, 5] 0))" by code_simp
  have 9: "fst (direct_sample greedy_sample ex_state ex_full 0 1 1) =
       Inr \<lparr>dtype = Int64, shape = [2], elems = [2, 0]\<rparr>" by code_simp
  from c1_equal_shards[OF 1 2 3 4 5 6 7 8 refl, of greedy_sample ex_mem ex_state 0 1 1] 1 3 9
  show ?thesis by simp
qed

lemma unequal_shards_any_allocator:
  "fst (tensor_parallel_sample greedy_sample mem (member_env 4 [4, 5] 0)
         (partition_last ex_late 0 [3, 1]) ex_state
         (partition_last ex_late 0 [3, 1] ! 0) 0 1 1) \<noteq>
   fst (direct_sample greedy_sample ex_state ex_late 0 1 1)"
proof -
  have d: "fst (direct_sample greedy_sample ex_state ex_late 0 1 1) =
       Inr \<lparr>dtype = Int64, shape = [2], elems = [3, 3]\<rparr>" by code_simp
  have n: "partition_last ex_late 0 [3, 1] =
       [\<lparr>dtype = Float32, shape = [2, 3], elems = [1, 5, 3, 8, 2, 0]\<rparr>,
        \<lparr>dtype = Float32, shape = [2, 1], elems = [9, 10]\<rparr>]" by code_simp
  have u: "[0..<2] = [0, 1]" "[0..<6] = [0, 1, 2, 3, 4, 5]" by code_simp+
  show ?thesis
    unfolding d n
    by (simp add: tensor_parallel_sample_def member_env_def gather_def Let_def empty_like_def
        numel_def fits_def nbytes_def receive_def cat_last_def cat_compatible_def lead_dims_def
        width_def nrows_def row_def emit_def greedy_sample_def ex_state_def u
        split: sum.splits)
qed

text \<open>
  Claim C1 as stated, for every valid partition. The vocabulary of \<open>ex_late\<close>, whose
  largest logit is in the last column of either row, is cut into shards of widths 3 and 1,
  which cover it without gap or overlap. Both receive buffers have the shape of the
  destination's own shard, two rows of three columns. The two elements of the second
  shard, 9 and 10, arrive at the start of the second buffer, in its first row, and the
  rest of that buffer stays as allocated. The concatenation has six columns, its rows are
  \<open>1, 5, 3, 9, 10, 0\<close> and \<open>8, 2, 0, 0, 0, 0\<close>, and the tokens are 4 and 0, where
  direct sampling from \<open>ex_late\<close> returns 3 and 3. The zeros are what the allocator
  of the example returns; by \<open>unequal_shards_any_allocator\<close> the tokens differ from
  those of direct sampling whatever the allocator returns.
\<close>

theorem c1_unequal_shards_counterexample:
  "valid_partition ex_late 2 [3, 1]
   \<and> partition_last ex_late 0 [3, 1] =
       [\<lparr>dtype = Float32, shape = [2, 3], elems = [1, 5, 3, 8, 2, 0]\<rparr>,
        \<lparr>dtype = Float32, shape = [2, 1], elems = [9, 10]\<rparr>]
   \<and> tensor_parallel_sample greedy_sample ex_mem (member_env 4 [4, 5] 0)
         (partition_last ex_late 0 [3, 1]) ex_state
         (partition_last ex_late 0 [3, 1] ! 0) 0 1 1 =
       (Inr \<lparr>dtype = Int64, shape = [2], elems = [4, 0]\<rparr>,
        \<lparr>events =
           [GatherCall \<lparr>dtype = Float32, shape = [2, 3], elems = [1, 5, 3, 8, 2, 0]\<rparr>
              [\<lparr>dtype = Float32, shape = [2, 3], elems = [0, 0, 0, 0, 0, 0]\<rparr>,
               \<lparr>dtype = Float32, shape = [2, 3], elems = [0, 0, 0, 0, 0, 0]\<rparr>] 4 [4, 5],
            SampleCall \<lparr>dtype = Float32, shape = [2, 6],
                         elems = [1, 5, 3, 9, 10, 0, 8, 2, 0, 0, 0, 0]\<rparr> 0 1 1],
         gen = 7\<rparr>)
   \<and> fst (direct_sample greedy_sample ex_state ex_late 0 1 1) =
       Inr \<lparr>dtype = Int64, shape = [2], elems = [3, 3]\<rparr>"
  by code_simp

section \<open>Events of a call\<close>

lemma new_events_emit1: "new_events st (r, emit ev st) = [ev]"
  by (simp add: new_events_def emit_def)

lemma new_events_direct:
  "new_events st (direct_sample sample (emit ev st) l p k t) = [ev, SampleCall l p k t]"
  by (simp add: new_events_def direct_sample_def emit_def Let_def split: sum.splits prod.splits)

lemma fst_direct_sample:
  "fst (direct_sample sample st l p k t) =
     (case sample (gen st) l p k t of Inl err \<Rightarrow> Inl err | Inr x \<Rightarrow> Inr (fst x))"
  by (simp add: direct_sample_def emit_def Let_def split: sum.splits prod.splits)

lemma events_rank0:
  assumes "tp_rank e = 0"
  shows "new_events st (tensor_parallel_sample sample mem e net st logits p k t) =
           [GatherCall logits (map (\<lambda>k. empty_like (mem k) logits) [0..<tp_world_size e])
              (tp_src_rank e) (tp_group e)]
       \<or> (\<exists>l. new_events st (tensor_parallel_sample sample mem e net st logits p k t) =
           [GatherCall logits (map (\<lambda>k. empty_like (mem k) logits) [0..<tp_world_size e])
              (tp_src_rank e) (tp_group e), SampleCall l p k t])"
  unfolding tps_rank0[OF assms] Let_def
  by (auto simp: new_events_emit1 new_events_direct split: sum.splits)

lemma events_other:
  assumes "tp_rank e \<noteq> 0"
  shows "new_events st (tensor_parallel_sample sample mem e net st logits p k t) =
           [GatherCall logits [] (tp_src_rank e) (tp_group e)]"
  unfolding tps_other[OF assms] Let_def
  by (auto simp: new_events_emit1 split: sum.splits)

lemma no_sampling_other:
  assumes "tp_rank e \<noteq> 0"
  shows "\<not> performs_sampling st (tensor_parallel_sample sample mem e net st logits p k t)"
  by (simp add: performs_sampling_def events_other[OF assms])

lemma tps_rank0_not_dst:
  assumes "tp_rank e = 0" "0 < tp_world_size e" "global_rank e \<noteq> tp_src_rank e"
  shows "tensor_parallel_sample sample mem e net st logits p k t =
     (Inl (if tp_src_rank e \<in> set (tp_group e) then GatherListOnNonDst else InvalidRank),
      emit (GatherCall logits (map (\<lambda>k. empty_like (mem k) logits) [0..<tp_world_size e])
              (tp_src_rank e) (tp_group e)) st)"
  using assms(2,3) unfolding tps_rank0[OF assms(1)] Let_def
  by (simp add: gather_def)

lemma tps_other_is_dst:
  assumes "tp_rank e \<noteq> 0" "global_rank e = tp_src_rank e"
  shows "tensor_parallel_sample sample mem e net st logits p k t =
     (Inl (if tp_src_rank e \<in> set (tp_group e) then GatherListMissing else InvalidRank),
      emit (GatherCall logits [] (tp_src_rank e) (tp_group e)) st)"
  using assms(2) unfolding tps_other[OF assms(1)] Let_def
  by (simp add: gather_def)

lemma performs_sampling_direct:
  "performs_sampling st (direct_sample sample (emit (GatherCall a b c d) st) l p k t)"
  by (simp add: performs_sampling_def new_events_direct)

section \<open>Receive buffers\<close>

text \<open>
  Claim C6. The participant of ordinal 0 enters the gather with exactly
  \<open>tp_world_size\<close> receive buffers, each well-formed and of the shape and dtype of its
  local logits shard; the buffers are arguments of the call, so they are allocated before
  it. Every other participant enters the same gather (same destination, same group) with
  an empty list of receive buffers, and that call is all it does.
\<close>

theorem c6_receive_buffers:
  "(let out = tensor_parallel_sample sample mem e net st logits top_p top_k temperature;
        bufs = map (\<lambda>k. empty_like (mem k) logits) [0..<tp_world_size e]
    in (tp_rank e = 0 \<longrightarrow>
          collectives st out = [GatherCall logits bufs (tp_src_rank e) (tp_group e)]
          \<and> hd (new_events st out) = GatherCall logits bufs (tp_src_rank e) (tp_group e)
          \<and> length bufs = tp_world_size e
          \<and> list_all (\<lambda>b. shape b = shape logits \<and> dtype b = dtype logits \<and> wf_tensor b) bufs)
     \<and> (tp_rank e \<noteq> 0 \<longrightarrow>
          new_events st out = [GatherCall logits [] (tp_src_rank e) (tp_group e)]
          \<and> collectives st out = [GatherCall logits [] (tp_src_rank e) (tp_group e)]))"
proof -
  have bufs: "list_all (\<lambda>b. shape b = shape logits \<and> dtype b = dtype logits \<and> wf_tensor b)
                (map (\<lambda>k. empty_like (mem k) logits) [0..<tp_world_size e])"
    by (simp add: list_all_iff empty_like_def wf_tensor_def numel_def)
  have zero: "collectives st (tensor_parallel_sample sample mem e net st logits top_p top_k temperature) =
          [GatherCall logits (map (\<lambda>k. empty_like (mem k) logits) [0..<tp_world_size e]) (tp_src_rank e) (tp_group e)]
        \<and> hd (new_events st (tensor_parallel_sample sample mem e net st logits top_p top_k temperature)) =
          GatherCall logits (map (\<lambda>k. empty_like (mem k) logits) [0..<tp_world_size e]) (tp_src_rank e) (tp_group e)"
    if "tp_rank e = 0"
    using events_rank0[OF that, of st sample mem net logits top_p top_k temperature]
    by (auto simp: collectives_def)
  have other: "new_events st (tensor_parallel_sample sample mem e net st logits top_p top_k temperature) =
          [GatherCall logits [] (tp_src_rank e) (tp_group e)]" if "tp_rank e \<noteq> 0"
    using events_other[OF that] .
  show ?thesis
    unfolding Let_def using zero other bufs by (auto simp: collectives_def)
qed

theorem c6_receive_buffers_witness:
  "tp_rank (member_env 4 [4, 5] 0) = 0 \<and> tp_rank (member_env 4 [4, 5] 1) \<noteq> 0
   \<and> collectives ex_state
        (tensor_parallel_sample greedy_sample ex_mem (member_env 4 [4, 5] 0) ex_net ex_state
           (ex_net ! 0) 0 1 1) =
       [GatherCall \<lparr>dtype = Float32, shape = [2, 2], elems = [1, 5, 8, 2]\<rparr>
          [\<lparr>dtype = Float32, shape = [2, 2], elems = [0, 0, 0, 0]\<rparr>,
           \<lparr>dtype = Float32, shape = [2, 2], elems = [0, 0, 0, 0]\<rparr>] 4 [4, 5]]
   \<and> new_events ex_state
        (tensor_parallel_sample greedy_sample ex_mem (member_env 4 [4, 5] 1) ex_net ex_state
           (ex_net ! 1) 0 1 1) =
       [GatherCall \<lparr>dtype = Float32, shape = [2, 2], elems = [9, 3, 0, 7]\<rparr> [] 4 [4, 5]]"
proof -
  have 0: "tp_rank (member_env 4 [4, 5] 0) = 0" by code_simp
  have 1: "tp_rank (member_env 4 [4, 5] 1) \<noteq> 0" by code_simp
  have a: "map (\<lambda>k. empty_like (ex_mem k) \<lparr>dtype = Float32, shape = [2, 2], elems = [1, 5, 8, 2]\<rparr>)
             [0..<tp_world_size (member_env 4 [4, 5] 0)] =
     [\<lparr>dtype = Float32, shape = [2, 2], elems = [0, 0, 0, 0]\<rparr>,
      \<lparr>dtype = Float32, shape = [2, 2], elems = [0, 0, 0, 0]\<rparr>]" by code_simp
  have b: "ex_net ! 0 = \<lparr>dtype = Float32, shape = [2, 2], elems = [1, 5, 8, 2]\<rparr>" by code_simp
  have c: "ex_net ! 1 = \<lparr>dtype = Float32, shape = [2, 2], elems = [9, 3, 0, 7]\<rparr>" by code_simp
  have d: "tp_src_rank (member_env 4 [4, 5] 0) = 4" "tp_group (member_env 4 [4, 5] 0) = [4, 5]"
    "tp_src_rank (member_env 4 [4, 5] 1) = 4" "tp_group (member_env 4 [4, 5] 1) = [4, 5]"
    by (simp_all add: member_env_def)
  note r0 = c6_receive_buffers[of greedy_sample ex_mem "member_env 4 [4, 5] 0" ex_net ex_state "ex_net ! 0" 0 1 1,
      unfolded Let_def, THEN conjunct1, THEN mp, OF 0, THEN conjunct1, unfolded a b d]
  note r1 = c6_receive_buffers[of greedy_sample ex_mem "member_env 4 [4, 5] 1" ex_net ex_state "ex_net ! 1" 0 1 1,
      unfolded Let_def, THEN conjunct2, THEN mp, OF 1, THEN conjunct1, unfolded c d]
  from 0 1 r0 r1 show ?thesis unfolding b c by blast
qed

section \<open>The destination and the member of ordinal 0\<close>

text \<open>
  Claim C9. The receive buffers and the sampling are decided by the test
  \<open>tp_rank e = 0\<close>, while the gather is directed at the global rank \<open>tp_src_rank e\<close>,
  and nothing in the function relates the two. If the member of ordinal 0 is not the
  destination, it still allocates its buffers and enters the gather with them, the
  collective rejects the call (a member that is not the destination must not supply
  buffers; a destination outside the group is rejected as such), and the member never
  holds gathered shards and never samples. The member that is the destination then has a
  non-zero ordinal, supplies no receive buffer and is rejected as well. No member of
  non-zero ordinal ever samples.
\<close>

theorem c9_rank0_must_be_destination:
  "(let out = tensor_parallel_sample sample mem e net st logits top_p top_k temperature
    in (tp_rank e = 0 \<and> 0 < tp_world_size e \<and> global_rank e \<noteq> tp_src_rank e \<longrightarrow>
          fst out = Inl (if tp_src_rank e \<in> set (tp_group e) then GatherListOnNonDst
                         else InvalidRank)
          \<and> \<not> performs_sampling st out
          \<and> new_events st out =
              [GatherCall logits (map (\<lambda>k. empty_like (mem k) logits) [0..<tp_world_size e])
                 (tp_src_rank e) (tp_group e)])
     \<and> (tp_rank e \<noteq> 0 \<and> global_rank e = tp_src_rank e \<longrightarrow>
          fst out = Inl (if tp_src_rank e \<in> set (tp_group e) then GatherListMissing
                         else InvalidRank)
          \<and> \<not> performs_sampling st out
          \<and> new_events st out = [GatherCall logits [] (tp_src_rank e) (tp_group e)])
     \<and> (tp_rank e \<noteq> 0 \<longrightarrow> \<not> performs_sampling st out))"
proof -
  have a: "fst (tensor_parallel_sample sample mem e net st logits top_p top_k temperature) =
            Inl (if tp_src_rank e \<in> set (tp_group e) then GatherListOnNonDst else InvalidRank)
        \<and> \<not> performs_sampling st (tensor_parallel_sample sample mem e net st logits top_p top_k temperature)
        \<and> new_events st (tensor_parallel_sample sample mem e net st logits top_p top_k temperature) =
              [GatherCall logits (map (\<lambda>k. empty_like (mem k) logits) [0..<tp_world_size e])
                 (tp_src_rank e) (tp_group e)]"
    if "tp_rank e = 0" "0 < tp_world_size e" "global_rank e \<noteq> tp_src_rank e"
    unfolding tps_rank0_not_dst[OF that]
    by (simp add: performs_sampling_def new_events_emit1)
  have b: "fst (tensor_parallel_sample sample mem e net st logits top_p top_k temperature) =
            Inl (if tp_src_rank e \<in> set (tp_group e) then GatherListMissing else InvalidRank)
        \<and> new_events st (tensor_parallel_sample sample mem e net st logits top_p top_k temperature) =
             [GatherCall logits [] (tp_src_rank e) (tp_group e)]"
    if "tp_rank e \<noteq> 0" "global_rank e = tp_src_rank e"
    unfolding tps_other_is_dst[OF that] by (simp add: new_events_emit1)
  have c: "\<not> performs_sampling st (tensor_parallel_sample sample mem e net st logits top_p top_k temperature)"
    if "tp_rank e \<noteq> 0"
    by (rule no_sampling_other[OF that])
  show ?thesis unfolding Let_def using a b c by blast
qed

theorem c9_rank0_must_be_destination_witness:
  "fst (tensor_parallel_sample greedy_sample ex_mem (member_env 5 [4, 5] 0) ex_net ex_state
          (ex_net ! 0) 0 1 1) = Inl GatherListOnNonDst
   \<and> fst (tensor_parallel_sample greedy_sample ex_mem (member_env 5 [4, 5] 1) ex_net ex_state
          (ex_net ! 1) 0 1 1) = Inl GatherListMissing
   \<and> \<not> performs_sampling ex_state
         (tensor_parallel_sample greedy_sample ex_mem (member_env 5 [4, 5] 0) ex_net ex_state
          (ex_net ! 0) 0 1 1)
   \<and> \<not> performs_sampling ex_state
         (tensor_parallel_sample greedy_sample ex_mem (member_env 5 [4, 5] 1) ex_net ex_state
          (ex_net ! 1) 0 1 1)"
proof -
  have 0: "tp_rank (member_env 5 [4, 5] 0) = 0 \<and> 0 < tp_world_size (member_env 5 [4, 5] 0)
           \<and> global_rank (member_env 5 [4, 5] 0) \<noteq> tp_src_rank (member_env 5 [4, 5] 0)"
    by code_simp
  have 1: "tp_rank (member_env 5 [4, 5] 1) \<noteq> 0
           \<and> global_rank (member_env 5 [4, 5] 1) = tp_src_rank (member_env 5 [4, 5] 1)"
    by code_simp
  have m0: "tp_src_rank (member_env 5 [4, 5] 0) \<in> set (tp_group (member_env 5 [4, 5] 0))"
    by code_simp
  have m1: "tp_src_rank (member_env 5 [4, 5] 1) \<in> set (tp_group (member_env 5 [4, 5] 1))"
    by code_simp
  note r0 = c9_rank0_must_be_destination[of greedy_sample ex_mem "member_env 5 [4, 5] 0" ex_net ex_state
      "ex_net ! 0" 0 1 1, unfolded Let_def, THEN conjunct1, THEN mp, OF 0, unfolded if_P[OF m0]]
  note r1 = c9_rank0_must_be_destination[of greedy_sample ex_mem "member_env 5 [4, 5] 1" ex_net ex_state
      "ex_net ! 1" 0 1 1, unfolded Let_def, THEN conjunct2, THEN conjunct1, THEN mp, OF 1,
      unfolded if_P[OF m1]]
  from r0 r1 show ?thesis by blast
qed

section \<open>A group of one participant\<close>

text \<open>
  Claim C4, as far as the code goes. With a single participant, which is its own
  destination, \<open>tensor_parallel_sample\<close> returns what sampling directly from the local
  logits returns and leaves the generator in the same state; it still enters the gather
  collective once, with one receive buffer.
\<close>

theorem c4_single_member:
  assumes "tp_world_size e = 1" and "tp_rank e = 0" and "tp_group e = [global_rank e]"
    and "tp_src_rank e = global_rank e" and "length net = 1"
    and "wf_tensor logits" and "shape logits \<noteq> []"
  shows "fst (tensor_parallel_sample sample mem e net st logits top_p top_k temperature) =
           fst (direct_sample sample st logits top_p top_k temperature)
       \<and> gen (snd (tensor_parallel_sample sample mem e net st logits top_p top_k temperature)) =
           gen (snd (direct_sample sample st logits top_p top_k temperature))
       \<and> collectives st (tensor_parallel_sample sample mem e net st logits top_p top_k temperature) =
           [GatherCall logits [empty_like (mem 0) logits] (tp_src_rank e) (tp_group e)]"
proof -
  have net: "net[0 := logits] = [logits]"
    using assms(5) by (cases net) simp_all
  have cat: "cat_last [logits] = Inr logits"
  proof -
    have "cat_last [logits] =
        Inr \<lparr>dtype = dtype logits, shape = lead_dims logits @ [width logits],
             elems = concat (map (row logits) [0..<nrows logits])\<rparr>"
      using assms(7) by (simp add: cat_last_def)
    moreover have "lead_dims logits @ [width logits] = shape logits"
      using assms(7) by (simp add: lead_dims_def width_def)
    ultimately show ?thesis using concat_rows[OF assms(6,7)] by simp
  qed
  have fit: "list_all (fits logits) (net[0 := logits])"
    unfolding net by (simp add: fits_def)
  have eq: "tensor_parallel_sample sample mem e net st logits top_p top_k temperature =
        direct_sample sample
          (emit (GatherCall logits [empty_like (mem 0) logits] (tp_src_rank e) (tp_group e)) st)
          logits top_p top_k temperature"
    using tps_destination[of e net logits sample mem st top_p top_k temperature] assms(1-6) fit
    by (simp add: net cat Let_def)
  show ?thesis
    unfolding eq collectives_def new_events_direct
    by (simp add: direct_sample_def emit_def Let_def split: sum.splits prod.splits)
qed

theorem c4_single_member_witness:
  "tp_world_size ex_single = 1
   \<and> fst (tensor_parallel_sample greedy_sample ex_mem ex_single [ex_full] ex_state ex_full 0 1 1) =
       fst (direct_sample greedy_sample ex_state ex_full 0 1 1)
   \<and> collectives ex_state
        (tensor_parallel_sample greedy_sample ex_mem ex_single [ex_full] ex_state ex_full 0 1 1) =
       [GatherCall ex_full [empty_like (ex_mem 0) ex_full] (tp_src_rank ex_single) (tp_group ex_single)]"
proof -
  have 1: "tp_world_size ex_single = 1" by code_simp
  have 2: "tp_rank ex_single = 0" by code_simp
  have 3: "tp_group ex_single = [global_rank ex_single]" by code_simp
  have 4: "tp_src_rank ex_single = global_rank ex_single" by code_simp
  have 5: "length [ex_full] = 1" by simp
  have 6: "wf_tensor ex_full" by code_simp
  have 7: "shape ex_full \<noteq> []" by code_simp
  from c4_single_member[OF 1 2 3 4 5 6 7, of greedy_sample ex_mem ex_state 0 1 1] 1
  show ?thesis by blast
qed

text \<open>
  Claim C4 as stated, without any collective operation: with one participant the call
  on \<open>ex_full\<close> enters the gather.
\<close>

theorem c4_single_member_counterexample:
  "tp_world_size ex_single = 1
   \<and> collectives ex_state
        (tensor_parallel_sample greedy_sample ex_mem ex_single [ex_full] ex_state ex_full 0 1 1) =
       [GatherCall \<lparr>dtype = Float32, shape = [2, 4], elems = [1, 5, 9, 3, 8, 2, 0, 7]\<rparr>
          [\<lparr>dtype = Float32, shape = [2, 4], elems = [0, 0, 0, 0, 0, 0, 0, 0]\<rparr>] 4 [4]]
   \<and> collectives ex_state
        (tensor_parallel_sample greedy_sample ex_mem ex_single [ex_full] ex_state ex_full 0 1 1) \<noteq> []"
  by code_simp

section \<open>Concatenation of the gathered shards\<close>


lemma uniform_facts:
  assumes "list_all (fits logits) net" "u \<in> set net"
  shows "shape u = shape logits" "dtype u = dtype logits" "width u = width logits"
    "nrows u = nrows logits" "lead_dims u = lead_dims logits"
  using assms by (auto simp: list_all_iff fits_def width_def nrows_def lead_dims_def)

lemma lead_dims_cat: "lead_dims \<lparr>dtype = d, shape = l @ [n], elems = xs\<rparr> = l"
  by (simp add: lead_dims_def)





lemma tps_destination_uniform:
  assumes r0: "tp_rank e = 0" and me: "global_rank e = tp_src_rank e"
    and mem: "tp_src_rank e \<in> set (tp_group e)"
    and lg: "length (tp_group e) = tp_world_size e" and ln: "length net = tp_world_size e"
    and pos: "0 < tp_world_size e" and n0: "net ! 0 = logits"
    and fit: "list_all (fits logits) net" and ne: "shape logits \<noteq> []"
    and wfn: "list_all wf_tensor net"
  shows "cat_last net =
           Inr \<lparr>dtype = dtype logits, shape = lead_dims logits @ [tp_world_size e * width logits],
                elems = concat (map (\<lambda>r. concat (map (\<lambda>u. row u r) net)) [0..<nrows logits])\<rparr>"
    and "tensor_parallel_sample sample mem e net st logits top_p top_k temperature =
           direct_sample sample
             (emit (GatherCall logits (map (\<lambda>k. empty_like (mem k) logits) [0..<tp_world_size e])
                      (tp_src_rank e) (tp_group e)) st)
             \<lparr>dtype = dtype logits, shape = lead_dims logits @ [tp_world_size e * width logits],
              elems = concat (map (\<lambda>r. concat (map (\<lambda>u. row u r) net)) [0..<nrows logits])\<rparr>
             top_p top_k temperature"
proof -
  have nn: "net \<noteq> []" using ln pos by auto
  then have hd: "hd net = logits" using n0 by (simp add: hd_conv_nth)
  have upd: "net[0 := logits] = net" using n0 by (metis list_update_id)
  show cat: "cat_last net =
           Inr \<lparr>dtype = dtype logits, shape = lead_dims logits @ [tp_world_size e * width logits],
                elems = concat (map (\<lambda>r. concat (map (\<lambda>u. row u r) net)) [0..<nrows logits])\<rparr>"
    using cat_last_uniform[OF nn] fit ne unfolding hd ln by simp
  show "tensor_parallel_sample sample mem e net st logits top_p top_k temperature =
           direct_sample sample
             (emit (GatherCall logits (map (\<lambda>k. empty_like (mem k) logits) [0..<tp_world_size e])
                      (tp_src_rank e) (tp_group e)) st)
             \<lparr>dtype = dtype logits, shape = lead_dims logits @ [tp_world_size e * width logits],
              elems = concat (map (\<lambda>r. concat (map (\<lambda>u. row u r) net)) [0..<nrows logits])\<rparr>
             top_p top_k temperature"
    using tps_destination[of e net logits sample mem st top_p top_k temperature]
      r0 me mem lg ln pos fit wfn
    by (simp add: upd cat Let_def)
qed



section \<open>One invocation across the group\<close>

lemma group_run_nth:
  "r < length grp \<Longrightarrow>
   group_run sample mem dst grp net sts top_p top_k temperature ! r =
   tensor_parallel_sample sample mem (member_env dst grp r) net (sts r) (net ! r)
     top_p top_k temperature"
  by (simp add: group_run_def)

lemma group_destination:
  assumes "well_formed_group grp net"
  shows "group_run sample mem (grp ! 0) grp net sts top_p top_k temperature ! 0 =
     direct_sample sample
       (emit (GatherCall (net ! 0) (map (\<lambda>k. empty_like (mem k) (net ! 0)) [0..<length grp])
                (grp ! 0) grp) (sts 0))
       \<lparr>dtype = dtype (net ! 0), shape = lead_dims (net ! 0) @ [length grp * width (net ! 0)],
        elems = concat (map (\<lambda>r. concat (map (\<lambda>u. row u r) net)) [0..<nrows (net ! 0)])\<rparr>
       top_p top_k temperature"
proof -
  have g: "grp \<noteq> []" and ln: "length net = length grp"
    and fit: "list_all (fits (hd net)) net" and ne: "shape (hd net) \<noteq> []"
    and wfn: "list_all wf_tensor net"
    using assms by (simp_all add: well_formed_group_def)
  have pos: "0 < length grp" using g by simp
  have hd: "hd net = net ! 0" using ln pos by (cases net) auto
  have "tensor_parallel_sample sample mem (member_env (grp ! 0) grp 0) net (sts 0) (net ! 0)
          top_p top_k temperature =
        direct_sample sample
          (emit (GatherCall (net ! 0)
                   (map (\<lambda>k. empty_like (mem k) (net ! 0)) [0..<tp_world_size (member_env (grp ! 0) grp 0)])
                   (tp_src_rank (member_env (grp ! 0) grp 0)) (tp_group (member_env (grp ! 0) grp 0)))
             (sts 0))
          \<lparr>dtype = dtype (net ! 0),
           shape = lead_dims (net ! 0) @ [tp_world_size (member_env (grp ! 0) grp 0) * width (net ! 0)],
           elems = concat (map (\<lambda>r. concat (map (\<lambda>u. row u r) net)) [0..<nrows (net ! 0)])\<rparr>
          top_p top_k temperature"
    by (rule tps_destination_uniform(2))
       (use pos ln fit ne wfn in \<open>simp_all add: member_env_def hd\<close>)
  then show ?thesis using pos by (simp add: group_run_nth member_env_def)
qed

lemma group_other:
  assumes "well_formed_group grp net" and "0 < r" and "r < length grp"
  shows "group_run sample mem (grp ! 0) grp net sts top_p top_k temperature ! r =
     (Inr \<lparr>dtype = dtype (net ! r), shape = lead_dims (net ! r),
           elems = map (mem 0) [0..<nrows (net ! r)]\<rparr>,
      emit (GatherCall (net ! r) [] (grp ! 0) grp) (sts r))"
proof -
  have g: "grp \<noteq> []" and d: "distinct grp" and ln: "length net = length grp"
    and fit: "list_all (fits (hd net)) net" and ne: "shape (hd net) \<noteq> []"
    and w: "0 < width (hd net)"
    using assms(1) by (simp_all add: well_formed_group_def)
  have nr: "net ! r \<in> set net" using assms(3) ln by simp
  have sh: "shape (net ! r) \<noteq> []" using uniform_facts(1)[OF fit nr] ne by simp
  have wd: "0 < width (net ! r)" using uniform_facts(3)[OF fit nr] w by simp
  have neq: "grp ! r \<noteq> grp ! 0"
  proof
    assume "grp ! r = grp ! 0"
    moreover have "0 < length grp" using g by simp
    ultimately have "r = 0" using d assms(3) by (simp add: nth_eq_iff_index_eq)
    then show False using assms(2) by simp
  qed
  have mem: "grp ! 0 \<in> set grp" using g by simp
  have "tensor_parallel_sample sample mem (member_env (grp ! 0) grp r) net (sts r) (net ! r)
          top_p top_k temperature =
     (Inr \<lparr>dtype = dtype (net ! r), shape = lead_dims (net ! r),
           elems = map (mem 0) [0..<nrows (net ! r)]\<rparr>,
      emit (GatherCall (net ! r) [] (tp_src_rank (member_env (grp ! 0) grp r))
              (tp_group (member_env (grp ! 0) grp r))) (sts r))"
    by (rule tps_placeholder) (use assms(2) neq mem sh wd in \<open>simp_all add: member_env_def\<close>)
  then show ?thesis using assms(3) by (simp add: group_run_nth member_env_def)
qed

lemma group_token_shape:
  assumes wfg: "well_formed_group grp net" and opr: "one_token_per_row sample"
    and tok: "fst (group_run sample mem (grp ! 0) grp net sts top_p top_k temperature ! 0) = Inr tok"
    and r: "r < length grp"
  shows "shape tok = lead_dims (net ! r)" and "dtype tok = Int64"
proof -
  let ?full = "\<lparr>dtype = dtype (net ! 0), shape = lead_dims (net ! 0) @ [length grp * width (net ! 0)],
        elems = concat (map (\<lambda>r. concat (map (\<lambda>u. row u r) net)) [0..<nrows (net ! 0)])\<rparr>"
  have ln: "length net = length grp" and fit: "list_all (fits (hd net)) net"
    using wfg by (simp_all add: well_formed_group_def)
  from tok obtain g' where s: "sample (gen (sts 0)) ?full top_p top_k temperature = Inr (tok, g')"
    unfolding group_destination[OF wfg]
    by (auto simp: fst_direct_sample emit_def split: sum.splits)
  from opr s have a: "shape tok = lead_dims ?full" and b: "dtype tok = Int64"
    unfolding one_token_per_row_def by blast+
  have "grp \<noteq> []" using wfg by (simp add: well_formed_group_def)
  then have "0 < length net" using ln by simp
  then have "net ! r \<in> set net" "net ! 0 \<in> set net" using r ln by simp_all
  then have "lead_dims (net ! r) = lead_dims (net ! 0)"
    using uniform_facts(5)[OF fit] by simp
  then show "shape tok = lead_dims (net ! r)" using a by (simp add: lead_dims_cat)
  show "dtype tok = Int64" by (rule b)
qed

lemma greedy_one_token_per_row: "one_token_per_row greedy_sample"
  by (auto simp: one_token_per_row_def greedy_sample_def split: if_splits)

text \<open>
  Claim C2, as far as the code goes. In a well-formed group whose destination is the
  member of ordinal 0, exactly one member calls the sampling primitive, the one of
  ordinal 0. Every other member returns a placeholder instead of tokens: a tensor with
  the leading dimensions of its logits shard and with the dtype of that shard. When the
  sampling primitive returns one integer token per row, the placeholder has the shape of
  the destination's token tensor, while its dtype is the dtype of the logits, not the
  integer type of the tokens.
\<close>

theorem c2_one_sampler:
  assumes "well_formed_group grp net"
  shows "(let outs = group_run sample mem (grp ! 0) grp net sts top_p top_k temperature
          in filter (\<lambda>r. performs_sampling (sts r) (outs ! r)) [0..<length grp] = [0]
           \<and> (\<forall>r. 0 < r \<and> r < length grp \<longrightarrow>
                 fst (outs ! r) =
                   Inr \<lparr>dtype = dtype (net ! r), shape = lead_dims (net ! r),
                        elems = map (mem 0) [0..<nrows (net ! r)]\<rparr>)
           \<and> (\<forall>tok r ph. one_token_per_row sample \<and> fst (outs ! 0) = Inr tok
                 \<and> 0 < r \<and> r < length grp \<and> fst (outs ! r) = Inr ph \<longrightarrow>
                 shape ph = shape tok \<and> dtype ph = dtype (net ! r) \<and> dtype tok = Int64))"
proof -
  let ?outs = "group_run sample mem (grp ! 0) grp net sts top_p top_k temperature"
  have pos: "0 < length grp" using assms by (simp add: well_formed_group_def)
  have s0: "performs_sampling (sts 0) (?outs ! 0)"
    unfolding group_destination[OF assms] by (rule performs_sampling_direct)
  have sr: "\<not> performs_sampling (sts r) (?outs ! r)" if "0 < r" "r < length grp" for r
    unfolding group_other[OF assms that]
    by (simp add: performs_sampling_def new_events_emit1)
  have "[0..<length grp] = 0 # [1..<length grp]" using pos by (simp add: upt_conv_Cons)
  moreover have "filter (\<lambda>r. performs_sampling (sts r) (?outs ! r)) [1..<length grp] = []"
    using sr by (simp add: filter_empty_conv)
  ultimately have one: "filter (\<lambda>r. performs_sampling (sts r) (?outs ! r)) [0..<length grp] = [0]"
    using s0 by simp
  have ph: "fst (?outs ! r) = Inr \<lparr>dtype = dtype (net ! r), shape = lead_dims (net ! r),
                        elems = map (mem 0) [0..<nrows (net ! r)]\<rparr>"
    if "0 < r" "r < length grp" for r
    unfolding group_other[OF assms that] by simp
  have match: "shape ph = shape tok \<and> dtype ph = dtype (net ! r) \<and> dtype tok = Int64"
    if "one_token_per_row sample" "fst (?outs ! 0) = Inr tok" "0 < r" "r < length grp"
       "fst (?outs ! r) = Inr ph" for tok r ph
    using group_token_shape[OF assms that(1,2,4)] ph[OF that(3,4)] that(5) by auto
  show ?thesis unfolding Let_def using one ph match by blast
qed

theorem c2_one_sampler_witness:
  "well_formed_group [4, 5] ex_net
   \<and> filter (\<lambda>r. performs_sampling ex_state
                 (group_run greedy_sample ex_mem ([4, 5] ! 0) [4, 5] ex_net (\<lambda>r. ex_state) 0 1 1 ! r))
        [0..<length [4, 5 :: nat]] = [0]
   \<and> fst (group_run greedy_sample ex_mem ([4, 5] ! 0) [4, 5] ex_net (\<lambda>r. ex_state) 0 1 1 ! 0) =
       Inr \<lparr>dtype = Int64, shape = [2], elems = [2, 0]\<rparr>
   \<and> fst (group_run greedy_sample ex_mem ([4, 5] ! 0) [4, 5] ex_net (\<lambda>r. ex_state) 0 1 1 ! 1) =
       Inr \<lparr>dtype = Float32, shape = [2], elems = [0, 0]\<rparr>"
proof -
  have wfg: "well_formed_group [4, 5] ex_net" by code_simp
  note T = c2_one_sampler[OF wfg, of greedy_sample ex_mem "\<lambda>r. ex_state" 0 1 1, unfolded Let_def]
  have o0: "fst (group_run greedy_sample ex_mem ([4, 5] ! 0) [4, 5] ex_net (\<lambda>r. ex_state) 0 1 1 ! 0) =
       Inr \<lparr>dtype = Int64, shape = [2], elems = [2, 0]\<rparr>" by code_simp
  have p: "\<lparr>dtype = dtype (ex_net ! 1), shape = lead_dims (ex_net ! 1),
            elems = map (ex_mem 0) [0..<nrows (ex_net ! 1)]\<rparr> =
           \<lparr>dtype = Float32, shape = [2], elems = [0, 0]\<rparr>" by code_simp
  have r: "(0::nat) < 1 \<and> 1 < length [4, 5 :: nat]" by simp
  from T have "fst (group_run greedy_sample ex_mem ([4, 5] ! 0) [4, 5] ex_net (\<lambda>r. ex_state) 0 1 1 ! 1) =
       Inr \<lparr>dtype = dtype (ex_net ! 1), shape = lead_dims (ex_net ! 1),
            elems = map (ex_mem 0) [0..<nrows (ex_net ! 1)]\<rparr>"
    using r by blast
  then have o1: "fst (group_run greedy_sample ex_mem ([4, 5] ! 0) [4, 5] ex_net (\<lambda>r. ex_state) 0 1 1 ! 1) =
       Inr \<lparr>dtype = Float32, shape = [2], elems = [0, 0]\<rparr>" unfolding p .
  from T wfg o0 o1 show ?thesis by blast
qed

text \<open>
  Claim C2 as stated, with a placeholder of matching shape and type: for floating-point
  logits the destination returns 64-bit integer tokens and the other member a
  floating-point placeholder; the shapes agree, the types do not.
\<close>

theorem c2_matching_type_counterexample:
  "fst (group_run greedy_sample ex_mem 4 [4, 5] ex_net (\<lambda>r. ex_state) 0 1 1 ! 0) =
       Inr \<lparr>dtype = Int64, shape = [2], elems = [2, 0]\<rparr>
   \<and> fst (group_run greedy_sample ex_mem 4 [4, 5] ex_net (\<lambda>r. ex_state) 0 1 1 ! 1) =
       Inr \<lparr>dtype = Float32, shape = [2], elems = [0, 0]\<rparr>
   \<and> Float32 \<noteq> Int64"
  by code_simp

section \<open>The placeholder of the other members\<close>

text \<open>
  Claim C5. On a member that is not the destination, the value returned is a well-formed
  placeholder tensor whose shape is the shape of the local logits shard without its last
  (vocabulary) dimension. The sampling primitive returns one token per batch row, so this
  is the shape of the token tensor the destination returns in the same invocation.
\<close>

theorem c5_placeholder_shape:
  assumes "well_formed_group grp net" and "0 < r" and "r < length grp"
  shows "(let outs = group_run sample mem (grp ! 0) grp net sts top_p top_k temperature;
              ph = \<lparr>dtype = dtype (net ! r), shape = lead_dims (net ! r),
                    elems = map (mem 0) [0..<nrows (net ! r)]\<rparr>
          in fst (outs ! r) = Inr ph
           \<and> wf_tensor ph
           \<and> shape ph @ [width (net ! r)] = shape (net ! r)
           \<and> (\<forall>tok. one_token_per_row sample \<and> fst (outs ! 0) = Inr tok \<longrightarrow> shape ph = shape tok))"
proof -
  let ?outs = "group_run sample mem (grp ! 0) grp net sts top_p top_k temperature"
  let ?ph = "\<lparr>dtype = dtype (net ! r), shape = lead_dims (net ! r),
              elems = map (mem 0) [0..<nrows (net ! r)]\<rparr>"
  have ln: "length net = length grp" and fit: "list_all (fits (hd net)) net"
    and ne: "shape (hd net) \<noteq> []"
    using assms(1) by (simp_all add: well_formed_group_def)
  have nr: "net ! r \<in> set net" using assms(3) ln by simp
  have sh: "shape (net ! r) \<noteq> []" using uniform_facts(1)[OF fit nr] ne by simp
  have a: "fst (?outs ! r) = Inr ?ph" unfolding group_other[OF assms] by simp
  have b: "wf_tensor ?ph" by (simp add: wf_tensor_def numel_def nrows_def)
  have c: "shape ?ph @ [width (net ! r)] = shape (net ! r)"
    using sh by (simp add: lead_dims_def width_def)
  have d: "shape ?ph = shape tok" if "one_token_per_row sample" "fst (?outs ! 0) = Inr tok" for tok
    using group_token_shape(1)[OF assms(1) that assms(3)] by simp
  show ?thesis unfolding Let_def using a b c d by blast
qed

theorem c5_placeholder_shape_witness:
  "well_formed_group [4, 5] ex_net \<and> (0::nat) < 1 \<and> 1 < length [4, 5 :: nat]
   \<and> fst (group_run greedy_sample ex_mem ([4, 5] ! 0) [4, 5] ex_net (\<lambda>r. ex_state) 0 1 1 ! 1) =
       Inr \<lparr>dtype = Float32, shape = [2], elems = [0, 0]\<rparr>
   \<and> shape (ex_net ! 1) = [2, 2]
   \<and> fst (group_run greedy_sample ex_mem ([4, 5] ! 0) [4, 5] ex_net (\<lambda>r. ex_state) 0 1 1 ! 0) =
       Inr \<lparr>dtype = Int64, shape = [2], elems = [2, 0]\<rparr>"
proof -
  have wfg: "well_formed_group [4, 5] ex_net" by code_simp
  have r: "(0::nat) < 1" "1 < length [4, 5 :: nat]" by simp_all
  have p: "\<lparr>dtype = dtype (ex_net ! 1), shape = lead_dims (ex_net ! 1),
            elems = map (ex_mem 0) [0..<nrows (ex_net ! 1)]\<rparr> =
           \<lparr>dtype = Float32, shape = [2], elems = [0, 0]\<rparr>" by code_simp
  note T = c5_placeholder_shape[OF wfg r, of greedy_sample ex_mem "\<lambda>r. ex_state" 0 1 1,
      unfolded Let_def p]
  have o0: "fst (group_run greedy_sample ex_mem ([4, 5] ! 0) [4, 5] ex_net (\<lambda>r. ex_state) 0 1 1 ! 0) =
       Inr \<lparr>dtype = Int64, shape = [2], elems = [2, 0]\<rparr>" by code_simp
  have s: "shape (ex_net ! 1) = [2, 2]" by code_simp
  from T wfg r o0 s show ?thesis by blast
qed

text \<open>
  Claim C8. On a member that is not the destination, the placeholder has the dtype of
  the logits shard. The tokens of the destination are 64-bit integers, so for logits of
  any other dtype (floating-point logits in particular) the two return values of one
  invocation agree in shape and differ in dtype.
\<close>

theorem c8_placeholder_dtype:
  assumes "well_formed_group grp net" and "0 < r" and "r < length grp"
  shows "(let outs = group_run sample mem (grp ! 0) grp net sts top_p top_k temperature;
              ph = \<lparr>dtype = dtype (net ! r), shape = lead_dims (net ! r),
                    elems = map (mem 0) [0..<nrows (net ! r)]\<rparr>
          in fst (outs ! r) = Inr ph
           \<and> dtype ph = dtype (net ! r)
           \<and> (\<forall>tok. one_token_per_row sample \<and> fst (outs ! 0) = Inr tok
                 \<and> dtype (net ! r) \<noteq> Int64 \<longrightarrow>
                 dtype ph \<noteq> dtype tok \<and> shape ph = shape tok))"
proof -
  let ?outs = "group_run sample mem (grp ! 0) grp net sts top_p top_k temperature"
  let ?ph = "\<lparr>dtype = dtype (net ! r), shape = lead_dims (net ! r),
              elems = map (mem 0) [0..<nrows (net ! r)]\<rparr>"
  have a: "fst (?outs ! r) = Inr ?ph" unfolding group_other[OF assms] by simp
  have d: "dtype ?ph \<noteq> dtype tok \<and> shape ?ph = shape tok"
    if "one_token_per_row sample" "fst (?outs ! 0) = Inr tok" "dtype (net ! r) \<noteq> Int64" for tok
    using group_token_shape[OF assms(1) that(1,2) assms(3)] that(3) by simp
  show ?thesis unfolding Let_def using a d by auto
qed

theorem c8_placeholder_dtype_witness:
  "well_formed_group [4, 5] ex_net \<and> (0::nat) < 1 \<and> 1 < length [4, 5 :: nat]
   \<and> one_token_per_row (greedy_sample :: (int, nat) sampler)
   \<and> dtype (ex_net ! 1) \<noteq> Int64
   \<and> fst (group_run greedy_sample ex_mem ([4, 5] ! 0) [4, 5] ex_net (\<lambda>r. ex_state) 0 1 1 ! 0) =
       Inr \<lparr>dtype = Int64, shape = [2], elems = [2, 0]\<rparr>
   \<and> fst (group_run greedy_sample ex_mem ([4, 5] ! 0) [4, 5] ex_net (\<lambda>r. ex_state) 0 1 1 ! 1) =
       Inr \<lparr>dtype = Float32, shape = [2], elems = [0, 0]\<rparr>
   \<and> dtype \<lparr>dtype = Float32, shape = [2], elems = [0, 0 :: int]\<rparr> \<noteq>
       dtype \<lparr>dtype = Int64, shape = [2], elems = [2, 0 :: int]\<rparr>"
proof -
  have wfg: "well_formed_group [4, 5] ex_net" by code_simp
  have r: "(0::nat) < 1" "1 < length [4, 5 :: nat]" by simp_all
  have p: "\<lparr>dtype = dtype (ex_net ! 1), shape = lead_dims (ex_net ! 1),
            elems = map (ex_mem 0) [0..<nrows (ex_net ! 1)]\<rparr> =
           \<lparr>dtype = Float32, shape = [2], elems = [0, 0]\<rparr>" by code_simp
  note T = c8_placeholder_dtype[OF wfg r, of greedy_sample ex_mem "\<lambda>r. ex_state" 0 1 1,
      unfolded Let_def p]
  have o0: "fst (group_run greedy_sample ex_mem ([4, 5] ! 0) [4, 5] ex_net (\<lambda>r. ex_state) 0 1 1 ! 0) =
       Inr \<lparr>dtype = Int64, shape = [2], elems = [2, 0]\<rparr>" by code_simp
  have d: "dtype (ex_net ! 1) \<noteq> Int64" by code_simp
  have opr: "one_token_per_row (greedy_sample :: (int, nat) sampler)"
    by (rule greedy_one_token_per_row)
  from T wfg r o0 d opr show ?thesis by blast
qed

section \<open>The temperature\<close>

text \<open>
  Claim C7. \<open>tensor_parallel_sample\<close> assumes a valid temperature: it neither checks
  nor changes it, and it gives no meaning of its own to a non-positive one. On the member
  of ordinal 0, once the gather and the concatenation have succeeded, the result is what
  the sampling primitive returns for the concatenated logits and the parameters exactly
  as they were given: its tokens, or its failure for a temperature it rejects. On a
  member of non-zero ordinal, which never comes to the scaling step, the result does not
  depend on the sampling primitive or on any sampling parameter. Whether a temperature is
  valid is thus left to the caller and to the primitive.
\<close>

theorem c7_temperature_unchecked:
  "(tp_rank e \<noteq> 0 \<longrightarrow>
      tensor_parallel_sample sample mem e net st logits top_p top_k temperature =
      tensor_parallel_sample sample' mem e net st logits top_p' top_k' temperature')
   \<and> (tp_rank e = 0 \<longrightarrow>
        (\<forall>tl full.
           gather (global_rank e) (net[0 := logits]) logits
             (map (\<lambda>k. empty_like (mem k) logits) [0..<tp_world_size e])
             (tp_src_rank e) (tp_group e) = Inr tl
           \<and> cat_last tl = Inr full \<longrightarrow>
           fst (tensor_parallel_sample sample mem e net st logits top_p top_k temperature) =
             (case sample (gen st) full top_p top_k temperature of
                Inl err \<Rightarrow> Inl err | Inr x \<Rightarrow> Inr (fst x))))"
proof -
  have a: "tensor_parallel_sample sample mem e net st logits top_p top_k temperature =
      tensor_parallel_sample sample' mem e net st logits top_p' top_k' temperature'"
    if "tp_rank e \<noteq> 0"
    unfolding tps_other[OF that] ..
  have b: "fst (tensor_parallel_sample sample mem e net st logits top_p top_k temperature) =
             (case sample (gen st) full top_p top_k temperature of
                Inl err \<Rightarrow> Inl err | Inr x \<Rightarrow> Inr (fst x))"
    if "tp_rank e = 0"
       "gather (global_rank e) (net[0 := logits]) logits
             (map (\<lambda>k. empty_like (mem k) logits) [0..<tp_world_size e])
             (tp_src_rank e) (tp_group e) = Inr tl" "cat_last tl = Inr full" for tl full
    unfolding tps_rank0[OF that(1)] Let_def
    by (simp add: that(2,3) fst_direct_sample emit_def)
  show ?thesis using a b by blast
qed

theorem c7_temperature_unchecked_witness:
  "tp_rank (member_env 4 [4, 5] 1) \<noteq> 0 \<and> tp_rank (member_env 4 [4, 5] 0) = 0
   \<and> tensor_parallel_sample greedy_sample ex_mem (member_env 4 [4, 5] 1) ex_net ex_state
        (ex_net ! 1) 0 1 (- 1) =
      tensor_parallel_sample greedy_sample ex_mem (member_env 4 [4, 5] 1) ex_net ex_state
        (ex_net ! 1) 0 1 1
   \<and> fst (tensor_parallel_sample greedy_sample ex_mem (member_env 4 [4, 5] 0) ex_net ex_state
        (ex_net ! 0) 0 1 0) = Inl SampleError"
proof -
  have 1: "tp_rank (member_env 4 [4, 5] 1) \<noteq> 0" by code_simp
  have 0: "tp_rank (member_env 4 [4, 5] 0) = 0" by code_simp
  have g: "gather (global_rank (member_env 4 [4, 5] 0)) (ex_net[0 := ex_net ! 0]) (ex_net ! 0)
             (map (\<lambda>k. empty_like (ex_mem k) (ex_net ! 0)) [0..<tp_world_size (member_env 4 [4, 5] 0)])
             (tp_src_rank (member_env 4 [4, 5] 0)) (tp_group (member_env 4 [4, 5] 0)) = Inr ex_net
           \<and> cat_last ex_net = Inr ex_full"
    by code_simp
  have s: "(case greedy_sample (gen ex_state) ex_full 0 1 0 of
              Inl err \<Rightarrow> Inl err | Inr x \<Rightarrow> Inr (fst x)) = (Inl SampleError :: error + int tensor)"
    by code_simp
  note a = c7_temperature_unchecked[of "member_env 4 [4, 5] 1" greedy_sample ex_mem ex_net ex_state
      "ex_net ! 1" 0 1 "- 1" greedy_sample 0 1 1, THEN conjunct1, THEN mp, OF 1]
  note b = c7_temperature_unchecked[of "member_env 4 [4, 5] 0" greedy_sample ex_mem ex_net ex_state
      "ex_net ! 0" 0 1 0 greedy_sample 0 1 1, THEN conjunct2, THEN mp, OF 0, rule_format, OF g,
      unfolded s]
  from 0 1 a b show ?thesis by blast
qed

section \<open>Slices of a two-dimensional tensor\<close>

lemma py_index_le: "py_index i d \<le> d"
  unfolding py_index_def by (cases "i < 0") (auto simp: max_def nat_le_iff)

lemma slice_bounds_le: "fst (slice_bounds lo hi d) \<le> d" "snd (slice_bounds lo hi d) \<le> d"
  by (simp_all add: slice_bounds_def py_index_le split: option.splits)

lemma slice_dim1_2d:
  assumes "shape t = [b, n]"
  shows "slice_dim1 lo hi t =
     Inr \<lparr>dtype = dtype t,
          shape = [b, snd (slice_bounds lo hi n) - fst (slice_bounds lo hi n)],
          elems = concat (map (\<lambda>i. take (snd (slice_bounds lo hi n) - fst (slice_bounds lo hi n))
                                     (drop (i * n + fst (slice_bounds lo hi n)) (elems t)))
                            [0..<b])\<rparr>"
  using assms by (simp add: slice_dim1_def Let_def)

lemma rows_2d: "shape t = [b, n] \<Longrightarrow> nrows t = b \<and> width t = n"
  by (simp add: nrows_def width_def lead_dims_def)

lemma sliced_chunk:
  assumes wf: "wf_tensor t" and sh: "shape t = [b, n]" and ak: "a + k \<le> n" and j: "j < b"
  shows "length (take k (drop (j * n + a) (elems t))) = k"
proof -
  have len: "length (elems t) = b * n" using wf sh by (simp add: wf_tensor_def numel_def)
  have "Suc j * n \<le> b * n" using j by (intro mult_le_mono1) simp
  then have "j * n + a + k \<le> length (elems t)" using ak len by simp
  then show ?thesis by simp
qed

lemma sliced_wf:
  assumes wf: "wf_tensor t" and sh: "shape t = [b, n]" and ak: "a + k \<le> n"
  shows "wf_tensor \<lparr>dtype = d, shape = [b, k],
                    elems = concat (map (\<lambda>i. take k (drop (i * n + a) (elems t))) [0..<b])\<rparr>"
proof -
  let ?xss = "map (\<lambda>i. take k (drop (i * n + a) (elems t))) [0..<b]"
  have "map length ?xss = replicate b k"
    using sliced_chunk[OF wf sh ak] by (intro replicate_eqI) auto
  then have "length (concat ?xss) = b * k" by (simp add: length_concat sum_list_replicate)
  then show ?thesis by (simp add: wf_tensor_def numel_def)
qed

lemma sliced_row:
  assumes wf: "wf_tensor t" and sh: "shape t = [b, n]" and ak: "a + k \<le> n" and i: "i < b"
  shows "row \<lparr>dtype = d, shape = [b, k],
              elems = concat (map (\<lambda>i. take k (drop (i * n + a) (elems t))) [0..<b])\<rparr> i
         = take k (drop a (row t i))"
proof -
  let ?xss = "map (\<lambda>i. take k (drop (i * n + a) (elems t))) [0..<b]"
  let ?s = "\<lparr>dtype = d, shape = [b, k], elems = concat ?xss\<rparr>"
  have unif: "\<forall>x\<in>set ?xss. length x = k" using sliced_chunk[OF wf sh ak] by auto
  have "row ?s i = take k (drop (i * k) (concat ?xss))"
    unfolding row_def[of ?s i] by (simp add: width_def)
  also have "\<dots> = ?xss ! i" using unif i by (intro take_drop_concat_uniform) simp_all
  also have "\<dots> = take k (drop (i * n + a) (elems t))" using i by simp
  also have "\<dots> = take k (drop a (row t i))"
    using ak by (simp add: row_def rows_2d[OF sh] drop_take add.commute min_def)
  finally show ?thesis .
qed

lemma slice_2d:
  assumes wf: "wf_tensor t" and sh: "shape t = [b, n]" and sl: "slice_dim1 lo hi t = Inr s"
  defines "a \<equiv> fst (slice_bounds lo hi n)" and "k \<equiv> snd (slice_bounds lo hi n) - fst (slice_bounds lo hi n)"
  shows "shape s = [b, k]" and "dtype s = dtype t" and "wf_tensor s"
    and "\<forall>i<b. row s i = take k (drop a (row t i))"
proof -
  have s: "s = \<lparr>dtype = dtype t, shape = [b, k],
                elems = concat (map (\<lambda>i. take k (drop (i * n + a) (elems t))) [0..<b])\<rparr>"
    using sl unfolding slice_dim1_2d[OF sh] a_def k_def by simp
  show "shape s = [b, k]" "dtype s = dtype t" by (simp_all add: s)
  have ak: "a + k \<le> n"
    using slice_bounds_le[of lo hi n] unfolding a_def k_def by linarith
  show "wf_tensor s" unfolding s by (rule sliced_wf[OF wf sh ak])
  show "\<forall>i<b. row s i = take k (drop a (row t i))"
    unfolding s using sliced_row[OF wf sh ak] by blast
qed

section \<open>Tokens and labels of a batch\<close>

lemma long_facts: "shape (long t) = shape t" "elems (long t) = elems t" "dtype (long t) = Int64"
  "wf_tensor (long t) = wf_tensor t" "row (long t) i = row t i"
  by (simp_all add: long_def wf_tensor_def numel_def row_def width_def)

lemma bounds_tail: "slice_bounds (Some 1) None n = (min 1 n, n)"
  by (simp add: slice_bounds_def py_index_def)

lemma bounds_init: "slice_bounds None (Some (- 1)) n = (0, n - 1)"
  by (auto simp: slice_bounds_def py_index_def max_def)

lemma bounds_prefix: "slice_bounds None (Some c) d = (0, py_index c d)"
  by (simp add: slice_bounds_def)

lemma get_batch_pipe_unfold:
  assumes "data ''text'' = Some tx"
    and "broadcast_data [''text'']
           (if length (shape tx) = 3 then (data(''text'' \<mapsto> squeeze1 tx)) else data) Int64
         = Inr data_b"
    and "data_b ''text'' = Some tb"
    and "slice_dim1 (Some 1) None (long tb) = Inr labels0"
    and "slice_dim1 None (Some (- 1)) (long tb) = Inr tokens0"
  shows "fst (get_batch_pipe broadcast_data get_ltor a eod data) =
     (case get_ltor tokens0 eod (reset_position_ids a) (reset_attention_mask a) (eod_mask_loss a) of
        Inl err \<Rightarrow> Inl err
      | Inr (attention_mask, loss_mask, position_ids) \<Rightarrow>
          if curriculum_learning_legacy a \<and> curriculum_seqlen a < int (shape tokens0 ! 1)
          then
            (case slice_dim1 None (Some (curriculum_seqlen a)) tokens0 of
               Inl err \<Rightarrow> Inl err
             | Inr tokens' \<Rightarrow>
            (case slice_dim1 None (Some (curriculum_seqlen a)) position_ids of
               Inl err \<Rightarrow> Inl err
             | Inr position_ids' \<Rightarrow>
            (case slice_dim1 None (Some (curriculum_seqlen a)) labels0 of
               Inl err \<Rightarrow> Inl err
             | Inr labels' \<Rightarrow>
            (case slice_dim1 None (Some (curriculum_seqlen a)) loss_mask of
               Inl err \<Rightarrow> Inl err
             | Inr loss_mask' \<Rightarrow>
                 Inr ((tokens', position_ids', attention_mask), (labels', loss_mask'))))))
          else Inr ((tokens0, position_ids, attention_mask), (labels0, loss_mask)))"
  using assms
  by (simp add: get_batch_pipe_def Let_def split: sum.splits prod.splits)

text \<open>
  Claim C10, as far as the code goes. Let the text tensor, squeezed when it has three
  dimensions, be handed to the broadcast, and let the broadcast text tensor \<open>tb\<close> have
  \<open>b\<close> rows and \<open>n\<close> columns. When \<open>get_batch_pipe\<close> returns, tokens and labels
  are 64-bit integer tensors of \<open>b\<close> rows and \<open>k\<close> columns, where column \<open>j\<close> of the
  tokens is column \<open>j\<close> of \<open>tb\<close> and column \<open>j\<close> of the labels is column \<open>j + 1\<close>
  of \<open>tb\<close>: the labels are the tokens shifted left by one. Without the legacy
  curriculum, or with a curriculum sequence length of at least \<open>n - 1\<close>, \<open>k\<close> is
  \<open>n - 1\<close> (no column at all when \<open>n = 0\<close>), so the tokens are the columns
  \<open>0, \<dots>, n - 2\<close> and the labels the columns \<open>1, \<dots>, n - 1\<close>. With a shorter curriculum
  sequence length both are cut to their first columns, as the Python slice
  \<^verbatim>\<open>[:, :curriculum_seqlen]\<close> cuts them.
\<close>

theorem c10_tokens_and_labels:
  assumes dt: "data ''text'' = Some text"
    and bc: "broadcast_data [''text'']
           (if length (shape text) = 3 then (data(''text'' \<mapsto> squeeze1 text)) else data) Int64
         = Inr data_b"
    and tb: "data_b ''text'' = Some tb" and wf: "wf_tensor tb" and sh: "shape tb = [b, n]"
    and ret: "fst (get_batch_pipe broadcast_data get_ltor a eod data) =
           Inr ((tokens, position_ids, attention_mask), (labels, loss_mask))"
  shows "(let k = (if curriculum_learning_legacy a \<and> curriculum_seqlen a < int (n - 1)
                   then py_index (curriculum_seqlen a) (n - 1) else n - 1)
          in shape tokens = [b, k] \<and> shape labels = [b, k]
           \<and> dtype tokens = Int64 \<and> dtype labels = Int64
           \<and> wf_tensor tokens \<and> wf_tensor labels
           \<and> (\<forall>i<b. \<forall>j<k. row tokens i ! j = row tb i ! j
                           \<and> row labels i ! j = row tb i ! (j + 1)))"
proof -
  let ?c = "curriculum_seqlen a"
  have wfl: "wf_tensor (long tb)" and shl: "shape (long tb) = [b, n]"
    using wf sh by (simp_all add: long_facts)
  obtain labels0 where l0: "slice_dim1 (Some 1) None (long tb) = Inr labels0"
    using slice_dim1_2d[OF shl] by blast
  obtain tokens0 where t0: "slice_dim1 None (Some (- 1)) (long tb) = Inr tokens0"
    using slice_dim1_2d[OF shl] by blast
  note L = slice_2d[OF wfl shl l0, unfolded bounds_tail fst_conv snd_conv long_facts]
  note T = slice_2d[OF wfl shl t0, unfolded bounds_init fst_conv snd_conv long_facts]
  have n1: "n - min 1 n = n - 1" by simp
  have shT: "shape tokens0 = [b, n - 1]" using T(1) by simp
  have shL: "shape labels0 = [b, n - 1]" using L(1) n1 by simp
  have rowT: "row tokens0 i = take (n - 1) (row tb i)" if "i < b" for i
    using T(4) that by simp
  have rowL: "row labels0 i = tl (row tb i)" if "i < b" for i
  proof -
    have len: "length (row tb i) = n"
      using length_row[of tb i] wf sh that by (simp add: rows_2d[OF sh])
    have "row labels0 i = take (n - 1) (drop (min 1 n) (row tb i))"
      using L(4) that n1 by simp
    also have "\<dots> = drop 1 (row tb i)" using len by (cases n) (simp_all add: min_def)
    finally show ?thesis by (simp add: drop_Suc)
  qed
  have lenrow: "length (row tb i) = n" if "i < b" for i
    using length_row[of tb i] wf sh that by (simp add: rows_2d[OF sh])
  note U = get_batch_pipe_unfold[where data = data and tx = "text"
      and broadcast_data = broadcast_data and data_b = data_b and tb = tb
      and ?labels0.0 = labels0 and ?tokens0.0 = tokens0 and get_ltor = get_ltor and a = a
      and eod = eod, OF dt bc tb l0 t0]
  show ?thesis
  proof (cases "curriculum_learning_legacy a \<and> ?c < int (n - 1)")
    case False
    then have eq: "tokens = tokens0" "labels = labels0"
      using ret unfolding U shT by (auto split: sum.splits prod.splits)
    have el: "row tokens i ! j = row tb i ! j \<and> row labels i ! j = row tb i ! (j + 1)"
      if "i < b" "j < n - 1" for i j
      using rowT[OF that(1)] rowL[OF that(1)] lenrow[OF that(1)] that(2)
      by (simp add: eq nth_tl)
    have k: "(if curriculum_learning_legacy a \<and> ?c < int (n - 1)
              then py_index ?c (n - 1) else n - 1) = n - 1"
      using False by (rule if_not_P)
    have f: "shape tokens = [b, n - 1]" "shape labels = [b, n - 1]" "dtype tokens = Int64"
      "dtype labels = Int64" "wf_tensor tokens" "wf_tensor labels"
      using shT shL T(2,3) L(2,3) by (simp_all add: eq)
    show ?thesis
      unfolding Let_def k using f el by blast
  next
    case True
    let ?k = "py_index ?c (n - 1)"
    from True ret obtain
      ts: "slice_dim1 None (Some ?c) tokens0 = Inr tokens" and
      ls: "slice_dim1 None (Some ?c) labels0 = Inr labels"
      unfolding U shT by (auto split: sum.splits prod.splits)
    note TT = slice_2d[OF T(3) shT ts, unfolded bounds_prefix fst_conv snd_conv]
    note LL = slice_2d[OF L(3) shL ls, unfolded bounds_prefix fst_conv snd_conv]
    have kle: "?k \<le> n - 1" by (rule py_index_le)
    have el: "row tokens i ! j = row tb i ! j \<and> row labels i ! j = row tb i ! (j + 1)"
      if "i < b" "j < ?k" for i j
    proof -
      have j: "j < n - 1" using that(2) kle by simp
      have "row tokens i = take ?k (row tokens0 i)" using TT(4) that(1) by simp
      then have a: "row tokens i ! j = row tb i ! j"
        using rowT[OF that(1)] that(2) j by simp
      have "row labels i = take ?k (row labels0 i)" using LL(4) that(1) by simp
      then have b: "row labels i ! j = row tb i ! (j + 1)"
        using rowL[OF that(1)] lenrow[OF that(1)] that(2) j by (simp add: nth_tl)
      from a b show ?thesis ..
    qed
    have k: "(if curriculum_learning_legacy a \<and> ?c < int (n - 1)
              then py_index ?c (n - 1) else n - 1) = ?k"
      using True by (rule if_P)
    have f: "shape tokens = [b, ?k]" "shape labels = [b, ?k]" "dtype tokens = Int64"
      "dtype labels = Int64" "wf_tensor tokens" "wf_tensor labels"
      using TT(1,2,3) LL(1,2,3) T(2) L(2) by simp_all
    show ?thesis
      unfolding Let_def k using f el by blast
  qed
qed

theorem c10_tokens_and_labels_witness:
  "ex_data ''text'' = Some ex_text \<and> shape (squeeze1 ex_text) = [2, 4]
   \<and> fst (get_batch_pipe local_broadcast plain_masks ex_args 0 ex_data) =
        Inr ((\<lparr>dtype = Int64, shape = [2, 3], elems = [11, 12, 13, 21, 22, 23]\<rparr>,
              \<lparr>dtype = Int64, shape = [2, 3], elems = [0, 1, 2, 0, 1, 2]\<rparr>,
              \<lparr>dtype = Bool, shape = [1, 1, 3, 3], elems = [0, 1, 1, 0, 0, 1, 0, 0, 0]\<rparr>),
             (\<lparr>dtype = Int64, shape = [2, 3], elems = [12, 13, 14, 22, 23, 24]\<rparr>,
              \<lparr>dtype = Float32, shape = [2, 3], elems = [1, 1, 1, 1, 1, 1]\<rparr>))
   \<and> row \<lparr>dtype = Int64, shape = [2, 3], elems = [11, 12, 13, 21, 22, 23]\<rparr> 1 ! 2 =
         row (squeeze1 ex_text) 1 ! 2
   \<and> row \<lparr>dtype = Int64, shape = [2, 3], elems = [12, 13, 14, 22, 23, 24]\<rparr> 1 ! 2 =
         row (squeeze1 ex_text) 1 ! (2 + 1)
   \<and> row \<lparr>dtype = Int64, shape = [2, 2], elems = [11, 12, 21, 22]\<rparr> 1 ! 1 =
         row (squeeze1 ex_text) 1 ! 1
   \<and> row \<lparr>dtype = Int64, shape = [2, 2], elems = [12, 13, 22, 23]\<rparr> 1 ! 1 =
         row (squeeze1 ex_text) 1 ! (1 + 1)"
proof -
  have 1: "ex_data ''text'' = Some ex_text" by (simp add: ex_data_def)
  have 2: "local_broadcast [''text'']
             (if length (shape ex_text) = 3 then (ex_data(''text'' \<mapsto> squeeze1 ex_text)) else ex_data)
             Int64
           = Inr (if length (shape ex_text) = 3 then (ex_data(''text'' \<mapsto> squeeze1 ex_text)) else ex_data)"
    by (simp add: local_broadcast_def)
  have 3: "(if length (shape ex_text) = 3 then (ex_data(''text'' \<mapsto> squeeze1 ex_text)) else ex_data)
             ''text'' = Some (squeeze1 ex_text)"
    by (simp add: ex_text_def)
  have 4: "wf_tensor (squeeze1 ex_text)" by code_simp
  have 5: "shape (squeeze1 ex_text) = [2, 4]" by code_simp
  have 6: "fst (get_batch_pipe local_broadcast plain_masks ex_args 0 ex_data) =
        Inr ((\<lparr>dtype = Int64, shape = [2, 3], elems = [11, 12, 13, 21, 22, 23]\<rparr>,
              \<lparr>dtype = Int64, shape = [2, 3], elems = [0, 1, 2, 0, 1, 2]\<rparr>,
              \<lparr>dtype = Bool, shape = [1, 1, 3, 3], elems = [0, 1, 1, 0, 0, 1, 0, 0, 0]\<rparr>),
             (\<lparr>dtype = Int64, shape = [2, 3], elems = [12, 13, 14, 22, 23, 24]\<rparr>,
              \<lparr>dtype = Float32, shape = [2, 3], elems = [1, 1, 1, 1, 1, 1]\<rparr>))"
    by code_simp
  have k: "(if curriculum_learning_legacy ex_args \<and> curriculum_seqlen ex_args < int (4 - 1)
            then py_index (curriculum_seqlen ex_args) (4 - 1) else 4 - 1) = 3"
    by code_simp
  have 7: "fst (get_batch_pipe local_broadcast plain_masks ex_args_curriculum 0 ex_data) =
        Inr ((\<lparr>dtype = Int64, shape = [2, 2], elems = [11, 12, 21, 22]\<rparr>,
              \<lparr>dtype = Int64, shape = [2, 2], elems = [0, 1, 0, 1]\<rparr>,
              \<lparr>dtype = Bool, shape = [1, 1, 3, 3], elems = [0, 1, 1, 0, 0, 1, 0, 0, 0]\<rparr>),
             (\<lparr>dtype = Int64, shape = [2, 2], elems = [12, 13, 22, 23]\<rparr>,
              \<lparr>dtype = Float32, shape = [2, 2], elems = [1, 1, 1, 1]\<rparr>))"
    by code_simp
  have k': "(if curriculum_learning_legacy ex_args_curriculum
               \<and> curriculum_seqlen ex_args_curriculum < int (4 - 1)
            then py_index (curriculum_seqlen ex_args_curriculum) (4 - 1) else 4 - 1) = 2"
    by code_simp
  note T = c10_tokens_and_labels[OF 1 2 3 4 5 6, unfolded Let_def k]
  note T' = c10_tokens_and_labels[OF 1 2 3 4 5 7, unfolded Let_def k']
  have i: "(1::nat) < 2" "(2::nat) < 3" by simp_all
  from T i have a: "row \<lparr>dtype = Int64, shape = [2, 3], elems = [11, 12, 13, 21, 22, 23]\<rparr> 1 ! 2 =
         row (squeeze1 ex_text) 1 ! 2
       \<and> row \<lparr>dtype = Int64, shape = [2, 3], elems = [12, 13, 14, 22, 23, 24]\<rparr> 1 ! 2 =
         row (squeeze1 ex_text) 1 ! (2 + 1)" by blast
  from T' i have b: "row \<lparr>dtype = Int64, shape = [2, 2], elems = [11, 12, 21, 22]\<rparr> 1 ! 1 =
         row (squeeze1 ex_text) 1 ! 1
       \<and> row \<lparr>dtype = Int64, shape = [2, 2], elems = [12, 13, 22, 23]\<rparr> 1 ! 1 =
         row (squeeze1 ex_text) 1 ! (1 + 1)" by blast
  from a b 1 5 6 show ?thesis by blast
qed

text \<open>
  Claim C10 as stated, for every input batch: with the legacy curriculum switched on and
  a sequence length of 2, a text tensor of 4 columns gives tokens and labels of 2 columns,
  not of 3.
\<close>

theorem c10_curriculum_counterexample:
  "curriculum_learning_legacy ex_args_curriculum \<and> curriculum_seqlen ex_args_curriculum = 2
   \<and> shape (squeeze1 ex_text) = [2, 4]
   \<and> fst (get_batch_pipe local_broadcast plain_masks ex_args_curriculum 0 ex_data) =
        Inr ((\<lparr>dtype = Int64, shape = [2, 2], elems = [11, 12, 21, 22]\<rparr>,
              \<lparr>dtype = Int64, shape = [2, 2], elems = [0, 1, 0, 1]\<rparr>,
              \<lparr>dtype = Bool, shape = [1, 1, 3, 3], elems = [0, 1, 1, 0, 0, 1, 0, 0, 0]\<rparr>),
             (\<lparr>dtype = Int64, shape = [2, 2], elems = [12, 13, 22, 23]\<rparr>,
              \<lparr>dtype = Float32, shape = [2, 2], elems = [1, 1, 1, 1]\<rparr>))"
  by code_simp

end
